theory Spec2Isabelle
  imports Complex_Main
begin

section \<open>Shipping calculator (App.py): data model\<close>

text \<open>
  The program computes with Python floats. In the model of \<open>predecir_envio\<close> they are
  \<^typ>\<open>real\<close>: every constant of the source (\<open>1.3\<close>, \<open>0.6\<close>, \<open>50.0\<close>, ...) is
  the decimal fraction it is written as, and \<open>+\<close>, \<open>*\<close>, \<open>/\<close> are exact. Where
  rounding decides a property (the strict monotonicity of the two base functions), the
  functions are modelled a second time in binary64 arithmetic, with every operation rounded
  to the nearest double (section \<open>Double-precision arithmetic\<close>). Integers coming from
  the widgets (\<open>st.number_input\<close> and \<open>st.slider\<close> with integer bounds) are
  \<^typ>\<open>int\<close>.
\<close>

subsection \<open>Exceptions\<close>

text \<open>
  The exceptions the modelled code can raise: \<open>KeyError\<close> from a dictionary subscript with a
  missing key, \<open>AttributeError\<close> from \<open>modelo.predict_proba\<close> when \<open>modelo\<close> is
  \<open>None\<close>, and any exception raised inside the classifier (\<open>PredictError\<close>) or by
  \<open>joblib.load\<close> (\<open>LoadError\<close>).
\<close>

datatype py_error = KeyError string | AttributeError | PredictError | LoadError

subsection \<open>Dictionaries\<close>

text \<open>
  A dictionary literal is an association list in insertion order (the order in which
  \<open>.keys()\<close> iterates); \<open>d[k]\<close> raises \<open>KeyError\<close> when \<open>k\<close> is missing.
\<close>

definition dict_get :: "(string \<times> 'v) list \<Rightarrow> string \<Rightarrow> py_error + 'v" where
  "dict_get d k = (case map_of d k of None \<Rightarrow> Inl (KeyError k) | Some v \<Rightarrow> Inr v)"

definition dict_keys :: "(string \<times> 'v) list \<Rightarrow> string list" where
  "dict_keys d = map fst d"

subsection \<open>Business configuration (App.py, lines 33-53)\<close>

text \<open>
  Two keys of the source carry an accented letter (an o with acute accent in the first, an
  a with acute accent in the second); they are written here as their UTF-8 bytes
  (C3 B3 and C3 A1), so that distinct keys of the source stay distinct.
\<close>

definition economico :: string where
  "economico = ''econ'' @ [CHR 0xC3, CHR 0xB3] @ ''mico''"

definition estandar :: string where
  "estandar = ''est'' @ [CHR 0xC3, CHR 0xA1] @ ''ndar''"

record multiplicador =
  tiempo :: real
  costo :: real

definition MODALIDADES :: "(string \<times> multiplicador) list" where
  "MODALIDADES =
     [(economico, \<lparr>tiempo = 1.3, costo = 0.8\<rparr>),
      (estandar, \<lparr>tiempo = 1.0, costo = 1.0\<rparr>),
      (''express'', \<lparr>tiempo = 0.7, costo = 1.5\<rparr>)]"

definition PERFILES :: "(string \<times> multiplicador) list" where
  "PERFILES =
     [(''urgente'', \<lparr>tiempo = 0.9, costo = 1.2\<rparr>),
      (economico, \<lparr>tiempo = 1.1, costo = 0.8\<rparr>)]"

text \<open>
  The feature dictionary \<open>datos_envio\<close> built in tab 1 (lines 126-135), with the eight
  keys of \<open>FEATURES\<close>.
\<close>

record datos_envio =
  Distancia_KM :: real
  Trafico_Score :: int
  Riesgo_Clima :: int
  Ratio_Inv :: real
  Waiting_Time :: int
  Temperature :: int
  Humidity :: int
  Traffic_Num :: int

text \<open>
  The classifier is opaque: \<open>float(modelo.predict_proba(df_input)[0][1])\<close> either yields a
  number or raises. The global \<open>modelo\<close> is \<open>None\<close> when loading failed.
\<close>

type_synonym clasificador = "datos_envio \<Rightarrow> py_error + real"

text \<open>The dictionary returned by \<open>predecir_envio\<close> (lines 91-96).\<close>

record prediccion =
  prob_retraso :: real
  riesgo :: string
  tiempo_horas :: real
  costo_usd :: real

text \<open>The Streamlit status elements the page emits.\<close>

datatype st_element = st_success | st_warning | st_error

section \<open>Loading the model (lines 20-28)\<close>

text \<open>
  \<open>load_model\<close> returns the loaded object, or reports the failure with \<open>st.error\<close> and
  returns \<open>None\<close>. The argument is the outcome of \<open>joblib.load(path)\<close>; the result
  pairs the returned value with the elements emitted.
\<close>

definition load_model :: "py_error + clasificador \<Rightarrow> clasificador option \<times> st_element list" where
  "load_model loaded =
     (case loaded of
        Inr m \<Rightarrow> (Some m, [])
      | Inl e \<Rightarrow> (None, [st_error]))"

section \<open>Auxiliary functions (lines 58-96)\<close>

definition calcular_tiempo_base :: "real \<Rightarrow> real" where
  "calcular_tiempo_base distancia_km = (distancia_km / 50.0) + 2.0"

definition calcular_costo_base :: "real \<Rightarrow> real \<Rightarrow> real" where
  "calcular_costo_base distancia_km peso_kg = 5.0 + (0.5 * distancia_km) + (1.0 * peso_kg)"

text \<open>The default of the parameter \<open>peso_kg\<close>, used when the argument is omitted.\<close>

definition peso_kg_default :: real where
  "peso_kg_default = 10.0"

text \<open>
  Lines 72-83 of \<open>predecir_envio\<close>: the \<open>if\<close>/\<open>elif\<close>/\<open>else\<close> on the delay probability,
  giving \<open>(tiempo_estimado, costo_estimado, riesgo)\<close>.
\<close>

definition ajuste_riesgo :: "real \<Rightarrow> real \<Rightarrow> real \<Rightarrow> real \<times> real \<times> string" where
  "ajuste_riesgo prob tiempo_base costo_base =
     (if prob > 0.6 then (tiempo_base * 1.5, costo_base * 1.30, ''alto'')
      else if prob > 0.4 then (tiempo_base * 1.2, costo_base * 1.15, ''medio'')
      else (tiempo_base, costo_base, ''bajo''))"

definition predecir_envio ::
  "clasificador option \<Rightarrow> datos_envio \<Rightarrow> string \<Rightarrow> string \<Rightarrow> py_error + prediccion" where
  "predecir_envio modelo datos modalidad perfil =
     (case modelo of
        None \<Rightarrow> Inl AttributeError
      | Some m \<Rightarrow>
          (case m datos of
             Inl e \<Rightarrow> Inl e
           | Inr prob \<Rightarrow>
               (let distancia = Distancia_KM datos;
                    tiempo_base = calcular_tiempo_base distancia;
                    costo_base = calcular_costo_base distancia peso_kg_default;
                    (tiempo_estimado, costo_estimado, nivel) =
                      ajuste_riesgo prob tiempo_base costo_base
                in case dict_get MODALIDADES modalidad of
                     Inl e \<Rightarrow> Inl e
                   | Inr md \<Rightarrow>
                       (let tiempo_estimado = tiempo_estimado * tiempo md;
                            costo_estimado = costo_estimado * costo md
                        in case dict_get PERFILES perfil of
                             Inl e \<Rightarrow> Inl e
                           | Inr pf \<Rightarrow>
                               Inr \<lparr>prob_retraso = prob,
                                    riesgo = nivel,
                                    tiempo_horas = tiempo_estimado * tiempo pf,
                                    costo_usd = costo_estimado * costo pf\<rparr>))))"

section \<open>Tab 1: comparing the modalities (lines 106-150)\<close>

definition trafico_score_dict :: "(string \<times> int) list" where
  "trafico_score_dict = [(''Clear'', 1), (''Detour'', 2), (''Heavy'', 3)]"

definition trafico_num_dict :: "(string \<times> int) list" where
  "trafico_num_dict = [(''Clear'', 0), (''Detour'', 1), (''Heavy'', 2)]"

text \<open>The options of the traffic select box (lines 114 and 160).\<close>

definition trafico_opciones :: "string list" where
  "trafico_opciones = [''Clear'', ''Detour'', ''Heavy'']"

text \<open>
  The values derived from the widgets (lines 115, 116, 120) and the feature dictionary
  built from them (lines 126-135).
\<close>

definition construir_datos_envio ::
  "int \<Rightarrow> int \<Rightarrow> string \<Rightarrow> int \<Rightarrow> int \<Rightarrow> real \<Rightarrow> py_error + datos_envio" where
  "construir_datos_envio distancia_km waiting trafico temp hum inv_ratio =
     (case dict_get trafico_score_dict trafico of
        Inl e \<Rightarrow> Inl e
      | Inr trafico_score \<Rightarrow>
          (case dict_get trafico_num_dict trafico of
             Inl e \<Rightarrow> Inl e
           | Inr trafico_num \<Rightarrow>
               (let riesgo_clima = (if temp > 30 \<or> hum > 80 then 1 else 0)
                in Inr \<lparr>Distancia_KM = real_of_int distancia_km,
                        Trafico_Score = trafico_score,
                        Riesgo_Clima = riesgo_clima,
                        Ratio_Inv = inv_ratio,
                        Waiting_Time = waiting,
                        Temperature = temp,
                        Humidity = hum,
                        Traffic_Num = trafico_num\<rparr>)))"

text \<open>
  The loop of lines 138-148: one call of \<open>predecir_envio\<close> per modality, in the order of
  the dictionary; an exception ends it. A row keeps the modality and the prediction (the
  formatting of the cells and the date computed from the clock are left out).
\<close>

fun comparar_modalidades ::
  "clasificador option \<Rightarrow> datos_envio \<Rightarrow> string \<Rightarrow> string list \<Rightarrow>
     py_error + (string \<times> prediccion) list" where
  "comparar_modalidades modelo datos perfil [] = Inr []"
| "comparar_modalidades modelo datos perfil (modalidad # resto) =
     (case predecir_envio modelo datos modalidad perfil of
        Inl e \<Rightarrow> Inl e
      | Inr out \<Rightarrow>
          (case comparar_modalidades modelo datos perfil resto of
             Inl e \<Rightarrow> Inl e
           | Inr resultados \<Rightarrow> Inr ((modalidad, out) # resultados)))"

text \<open>
  The guard of line 125, \<open>if modelo and st.button(...)\<close>: a loaded classifier is a truthy
  object and \<open>None\<close> is falsy, and \<open>pulsado\<close> is what the button returns. The result is
  \<open>None\<close> when the block is not run (nothing is rendered), otherwise the table or the
  exception that ended the block.
\<close>

definition tab1_calcular ::
  "clasificador option \<Rightarrow> bool \<Rightarrow> datos_envio \<Rightarrow> string \<Rightarrow>
     (py_error + (string \<times> prediccion) list) option" where
  "tab1_calcular modelo pulsado datos perfil =
     (if modelo \<noteq> None \<and> pulsado
      then Some (comparar_modalidades modelo datos perfil (dict_keys MODALIDADES))
      else None)"

section \<open>Tab 2: operational alerts (lines 171-189)\<close>

text \<open>
  The four \<open>if\<close>/\<open>else\<close> statements, each emitting one element, in the order of the
  source: traffic, weather, inventory, waiting time.
\<close>

definition tab2_alertas :: "string \<Rightarrow> int \<Rightarrow> int \<Rightarrow> real \<Rightarrow> int \<Rightarrow> st_element list" where
  "tab2_alertas trafico_alert temp_alert hum_alert inv_ratio_alert waiting_alert =
     [if trafico_alert = ''Heavy'' then st_warning else st_success,
      if (temp_alert > 30) \<or> (hum_alert > 80) then st_warning else st_success,
      if inv_ratio_alert < 0.5 then st_error else st_success,
      if waiting_alert > 60 then st_error else st_success]"

section \<open>Double-precision arithmetic\<close>

text \<open>
  A Python float is an IEEE 754 binary64 number: a sign, a 53-bit significand and an
  exponent. A finite double is written here as the real number it denotes. Every
  arithmetic operation returns the exact result rounded to the nearest double, a tie going
  to the double whose significand is even.

  \<open>redondeo_par\<close> rounds a real to the nearest integer, ties to the even one.
\<close>

definition redondeo_par :: "real \<Rightarrow> int" where
  "redondeo_par q =
     (if q - of_int \<lfloor>q\<rfloor> < 1 / 2 then \<lfloor>q\<rfloor>
      else if q - of_int \<lfloor>q\<rfloor> > 1 / 2 then \<lfloor>q\<rfloor> + 1
      else if even \<lfloor>q\<rfloor> then \<lfloor>q\<rfloor> else \<lfloor>q\<rfloor> + 1)"

text \<open>
  The exponent of the binade of \<open>x\<close>, that is the \<open>e\<close> with
  \<open>2^e \<le> |x| < 2^(e+1)\<close>, but not below \<open>-1022\<close> (below \<open>2^-1022\<close> the doubles are
  subnormal and keep the spacing of the lowest binade). The doubles of that binade are the
  multiples of \<open>ulp x = 2^(e-52)\<close>.
\<close>

definition exponente :: "real \<Rightarrow> int" where
  "exponente x = (if x = 0 then - 1022 else max \<lfloor>log 2 \<bar>x\<bar>\<rfloor> (- 1022))"

definition ulp :: "real \<Rightarrow> real" where
  "ulp x = 2 powi (exponente x - 52)"

text \<open>Rounding to the nearest multiple of \<open>ulp x\<close>, ties to even, with no upper bound.\<close>

definition redondear :: "real \<Rightarrow> real" where
  "redondear x = of_int (redondeo_par (x / ulp x)) * ulp x"

text \<open>
  The largest finite double, \<open>(2^53 - 1) * 2^971\<close>. A result that rounds beyond it is an
  infinity in IEEE 754; \<open>f64\<close> returns \<open>None\<close> for it, and otherwise the double the
  exact result \<open>x\<close> is rounded to. \<open>es_f64 x\<close> says that \<open>x\<close> is itself a finite
  double. (Python raises no exception here: the operations below divide by the constant
  50.0 only, and an overflow yields \<open>inf\<close>.)
\<close>

definition max_double :: real where
  "max_double = (2 ^ 53 - 1) * 2 ^ 971"

definition f64 :: "real \<Rightarrow> real option" where
  "f64 x = (if \<bar>redondear x\<bar> \<le> max_double then Some (redondear x) else None)"

definition es_f64 :: "real \<Rightarrow> bool" where
  "es_f64 x = (f64 x = Some x)"

text \<open>
  \<open>calcular_tiempo_base\<close> (lines 58-59) in binary64: the quotient \<open>distancia_km / 50.0\<close>
  is rounded, then the sum with \<open>2.0\<close> is rounded. \<open>None\<close> stands for a result that is
  not a finite number.
\<close>

definition calcular_tiempo_base_f64 :: "real \<Rightarrow> real option" where
  "calcular_tiempo_base_f64 distancia_km =
     (case f64 (distancia_km / 50.0) of
        None \<Rightarrow> None
      | Some q \<Rightarrow> f64 (q + 2.0))"

text \<open>
  \<open>calcular_costo_base\<close> (lines 61-62) in binary64, in the order in which Python
  evaluates \<open>5.0 + (0.5 * distancia_km) + (1.0 * peso_kg)\<close>: the first product, the sum
  with \<open>5.0\<close>, the second product, the last sum, each rounded.
\<close>

definition calcular_costo_base_f64 :: "real \<Rightarrow> real \<Rightarrow> real option" where
  "calcular_costo_base_f64 distancia_km peso_kg =
     (case f64 (0.5 * distancia_km) of
        None \<Rightarrow> None
      | Some a \<Rightarrow>
          (case f64 (5.0 + a) of
             None \<Rightarrow> None
           | Some b \<Rightarrow>
               (case f64 (1.0 * peso_kg) of
                  None \<Rightarrow> None
                | Some c \<Rightarrow> f64 (b + c))))"

text \<open>A positive double far below the rounding error of the base values.\<close>

definition diminuto :: real where
  "diminuto = 1 / 2 ^ 60"

section \<open>The specification's wording and example inputs\<close>

text \<open>
  The risk multipliers as section 4.2 of the specification words them (three cases with
  the two breakpoints 0.6 and 0.4); they are compared below with the branch of the code.
\<close>

definition spec_riskTimeMultiplier :: "real \<Rightarrow> real" where
  "spec_riskTimeMultiplier p =
     (if p > 0.6 then 1.5 else if 0.4 < p \<and> p \<le> 0.6 then 1.2 else 1.0)"

definition spec_riskCostMultiplier :: "real \<Rightarrow> real" where
  "spec_riskCostMultiplier p =
     (if p > 0.6 then 1.30 else if 0.4 < p \<and> p \<le> 0.6 then 1.15 else 1.0)"

text \<open>
  Concrete inputs for the examples: a feature dictionary with the widgets' default
  values and a given distance, a classifier that always answers a given probability, and
  a classifier that always raises.
\<close>

definition datos_ejemplo :: "real \<Rightarrow> datos_envio" where
  "datos_ejemplo d =
     \<lparr>Distancia_KM = d, Trafico_Score = 1, Riesgo_Clima = 0, Ratio_Inv = 1.0,
      Waiting_Time = 10, Temperature = 25, Humidity = 60, Traffic_Num = 0\<rparr>"

definition clasificador_fijo :: "real \<Rightarrow> clasificador" where
  "clasificador_fijo p datos = Inr p"

definition clasificador_roto :: clasificador where
  "clasificador_roto datos = Inl PredictError"

section \<open>Auxiliary facts\<close>

lemma claves_distintas:
  "economico \<noteq> estandar" "economico \<noteq> ''express''" "estandar \<noteq> ''express''"
  "economico \<noteq> ''urgente''" "estandar \<noteq> economico" "''express'' \<noteq> economico"
  "''express'' \<noteq> estandar" "''urgente'' \<noteq> economico"
  by (simp_all add: economico_def estandar_def)

lemma dict_get_missing: "k \<notin> set (dict_keys d) \<Longrightarrow> dict_get d k = Inl (KeyError k)"
  by (simp add: dict_get_def dict_keys_def map_of_eq_None_iff[THEN iffD2])

lemma dict_get_present:
  assumes "k \<in> set (dict_keys d)"
  shows "\<exists>v. dict_get d k = Inr v \<and> (k, v) \<in> set d"
proof -
  from assms have "map_of d k \<noteq> None"
    by (simp add: dict_keys_def map_of_eq_None_iff)
  then obtain v where "map_of d k = Some v" by blast
  then show ?thesis
    by (auto simp: dict_get_def dest: map_of_SomeD)
qed

lemma dict_get_tabla:
  "dict_get MODALIDADES economico = Inr \<lparr>tiempo = 1.3, costo = 0.8\<rparr>"
  "dict_get MODALIDADES estandar = Inr \<lparr>tiempo = 1.0, costo = 1.0\<rparr>"
  "dict_get MODALIDADES ''express'' = Inr \<lparr>tiempo = 0.7, costo = 1.5\<rparr>"
  "dict_get PERFILES ''urgente'' = Inr \<lparr>tiempo = 0.9, costo = 1.2\<rparr>"
  "dict_get PERFILES economico = Inr \<lparr>tiempo = 1.1, costo = 0.8\<rparr>"
  by (simp_all add: dict_get_def MODALIDADES_def PERFILES_def claves_distintas)

lemma MODALIDADES_entradas:
  "(k, md) \<in> set MODALIDADES \<Longrightarrow> dict_get MODALIDADES k = Inr md"
  by (auto simp: MODALIDADES_def dict_get_def claves_distintas)

lemma PERFILES_entradas:
  "(k, pf) \<in> set PERFILES \<Longrightarrow> dict_get PERFILES k = Inr pf"
  by (auto simp: PERFILES_def dict_get_def claves_distintas)

lemma dict_get_MODALIDADES_pos:
  "dict_get MODALIDADES k = Inr md \<Longrightarrow> 0 < tiempo md \<and> 0 < costo md"
  by (auto simp: dict_get_def MODALIDADES_def split: if_splits)

lemma dict_get_PERFILES_pos:
  "dict_get PERFILES k = Inr pf \<Longrightarrow> 0 < tiempo pf \<and> 0 < costo pf"
  by (auto simp: dict_get_def PERFILES_def split: if_splits)

text \<open>The result of \<open>predecir_envio\<close> when the classifier answers and both keys are found.\<close>

lemma predecir_envio_ok:
  assumes "m datos = Inr p"
    and "dict_get MODALIDADES modalidad = Inr md"
    and "dict_get PERFILES perfil = Inr pf"
  shows "predecir_envio (Some m) datos modalidad perfil =
     Inr \<lparr>prob_retraso = p,
          riesgo = snd (snd (ajuste_riesgo p (calcular_tiempo_base (Distancia_KM datos))
                     (calcular_costo_base (Distancia_KM datos) peso_kg_default))),
          tiempo_horas = fst (ajuste_riesgo p (calcular_tiempo_base (Distancia_KM datos))
                     (calcular_costo_base (Distancia_KM datos) peso_kg_default))
                   * tiempo md * tiempo pf,
          costo_usd = fst (snd (ajuste_riesgo p (calcular_tiempo_base (Distancia_KM datos))
                     (calcular_costo_base (Distancia_KM datos) peso_kg_default)))
                   * costo md * costo pf\<rparr>"
  using assms by (simp add: predecir_envio_def Let_def split: prod.splits)

text \<open>A prediction is returned only if the classifier answered and both keys were found.\<close>

lemma predecir_envio_Inr_D:
  assumes "predecir_envio modelo datos modalidad perfil = Inr q"
  shows "\<exists>m p md pf. modelo = Some m \<and> m datos = Inr p
           \<and> dict_get MODALIDADES modalidad = Inr md \<and> dict_get PERFILES perfil = Inr pf"
  using assms
  by (auto simp: predecir_envio_def Let_def split: option.splits sum.splits prod.splits)

text \<open>The branch of lines 72-83 multiplies by the specification's risk multipliers.\<close>

lemma ajuste_riesgo_mult:
  "ajuste_riesgo p tb cb =
     (tb * spec_riskTimeMultiplier p, cb * spec_riskCostMultiplier p,
      if p > 0.6 then ''alto'' else if p > 0.4 then ''medio'' else ''bajo'')"
  by (simp add: ajuste_riesgo_def spec_riskTimeMultiplier_def spec_riskCostMultiplier_def)

lemma ajuste_riesgo_positivo:
  assumes "0 < tb" and "0 < cb"
  shows "0 < fst (ajuste_riesgo p tb cb) \<and> 0 < fst (snd (ajuste_riesgo p tb cb))"
  using assms by (simp add: ajuste_riesgo_def)

lemma ajuste_riesgo_monotono:
  assumes "0 \<le> tb" and "0 \<le> cb" and "p1 \<le> p2"
  shows "fst (ajuste_riesgo p1 tb cb) \<le> fst (ajuste_riesgo p2 tb cb)
       \<and> fst (snd (ajuste_riesgo p1 tb cb)) \<le> fst (snd (ajuste_riesgo p2 tb cb))"
  using assms by (auto simp: ajuste_riesgo_def mult_left_mono)

text \<open>\<open>predecir_envio\<close> evaluated on the example inputs.\<close>

lemma predecir_envio_eval:
  "predecir_envio (Some (clasificador_fijo p)) (datos_ejemplo d) modalidad perfil =
     (case dict_get MODALIDADES modalidad of
        Inl e \<Rightarrow> Inl e
      | Inr md \<Rightarrow>
         (case dict_get PERFILES perfil of
            Inl e \<Rightarrow> Inl e
          | Inr pf \<Rightarrow>
              Inr \<lparr>prob_retraso = p,
                   riesgo = (if p > 0.6 then ''alto'' else if p > 0.4 then ''medio'' else ''bajo''),
                   tiempo_horas = (d / 50 + 2) * spec_riskTimeMultiplier p * tiempo md * tiempo pf,
                   costo_usd = (15 + d / 2) * spec_riskCostMultiplier p * costo md * costo pf\<rparr>))"
  by (simp add: predecir_envio_def clasificador_fijo_def datos_ejemplo_def Let_def
      ajuste_riesgo_mult calcular_tiempo_base_def calcular_costo_base_def peso_kg_default_def
      split: sum.splits)

subsection \<open>Facts about rounding\<close>

lemma redondeo_par_of_int [simp]: "redondeo_par (of_int n) = n"
  by (simp add: redondeo_par_def)

lemma redondeo_par_ge: "of_int n \<le> q \<Longrightarrow> n \<le> redondeo_par q"
proof -
  assume "of_int n \<le> q"
  then have "n \<le> \<lfloor>q\<rfloor>" by (simp add: le_floor_iff)
  then show ?thesis by (auto simp: redondeo_par_def)
qed

lemma dos_powi_powr: "(2::real) powi k = 2 powr (of_int k)"
  by (rule powr_real_of_int' [symmetric]) auto

lemma redondeo_par_le: "q \<le> of_int n \<Longrightarrow> redondeo_par q \<le> n"
proof -
  assume a: "q \<le> of_int n"
  show ?thesis
  proof (cases "q = of_int n")
    case True
    then show ?thesis by simp
  next
    case False
    with a have "q < of_int n" by simp
    then have "\<lfloor>q\<rfloor> < n" by (simp add: floor_less_iff)
    then show ?thesis by (auto simp: redondeo_par_def)
  qed
qed

lemma redondeo_par_mono:
  assumes "q1 \<le> q2"
  shows "redondeo_par q1 \<le> redondeo_par q2"
proof (cases "\<lfloor>q1\<rfloor> = \<lfloor>q2\<rfloor>")
  case True
  then show ?thesis using assms by (auto simp: redondeo_par_def)
next
  case False
  have "\<lfloor>q1\<rfloor> \<le> \<lfloor>q2\<rfloor>" using assms by (rule floor_mono)
  with False have "\<lfloor>q1\<rfloor> + 1 \<le> \<lfloor>q2\<rfloor>" by simp
  moreover have "redondeo_par q1 \<le> \<lfloor>q1\<rfloor> + 1" by (auto simp: redondeo_par_def)
  moreover have "\<lfloor>q2\<rfloor> \<le> redondeo_par q2" by (auto simp: redondeo_par_def)
  ultimately show ?thesis by linarith
qed

lemma redondeo_par_cerca:
  assumes "0 \<le> r" and "r < 1 / 2"
  shows "redondeo_par (of_int n + r) = n"
proof -
  have "\<lfloor>of_int n + r\<rfloor> = n" using assms by (simp add: floor_unique)
  then show ?thesis using assms by (simp add: redondeo_par_def)
qed

lemma ulp_pos [simp]: "0 < ulp x"
  by (simp add: ulp_def)

lemma exponente_eq:
  assumes "2 powi k \<le> \<bar>x\<bar>" and "\<bar>x\<bar> < 2 powi (k + 1)" and "- 1022 \<le> k"
  shows "exponente x = k"
proof -
  have pos: "0 < \<bar>x\<bar>" using assms(1) zero_less_power_int [of "2::real" k] by linarith
  have "2 powr (of_int k) \<le> \<bar>x\<bar>" "\<bar>x\<bar> < 2 powr (of_int (k + 1))"
    using assms unfolding dos_powi_powr by blast+
  then have "\<lfloor>log 2 \<bar>x\<bar>\<rfloor> = k"
    using pos by (simp add: floor_log_eq_powr_iff)
  then show ?thesis using pos assms(3) by (simp add: exponente_def)
qed

lemma exponente_cota_sup:
  assumes "x \<noteq> 0"
  shows "\<bar>x\<bar> < 2 powi (exponente x + 1)"
proof -
  have pos: "0 < \<bar>x\<bar>" using assms by simp
  have "log 2 \<bar>x\<bar> < of_int (\<lfloor>log 2 \<bar>x\<bar>\<rfloor> + 1)" by linarith
  also have "\<dots> \<le> of_int (exponente x + 1)" using assms by (simp add: exponente_def)
  finally have "log 2 \<bar>x\<bar> < of_int (exponente x + 1)" .
  then have "\<bar>x\<bar> < 2 powr (of_int (exponente x + 1))"
    using pos by (simp add: log_less_iff)
  then show ?thesis unfolding dos_powi_powr .
qed

lemma exponente_cota_inf:
  assumes "- 1022 < exponente x"
  shows "2 powi (exponente x) \<le> \<bar>x\<bar>"
proof -
  have nz: "x \<noteq> 0" using assms by (auto simp: exponente_def)
  then have pos: "0 < \<bar>x\<bar>" by simp
  have "exponente x = \<lfloor>log 2 \<bar>x\<bar>\<rfloor>" using assms nz by (simp add: exponente_def max_def split: if_splits)
  then have "of_int (exponente x) \<le> log 2 \<bar>x\<bar>" by simp
  then have "2 powr (of_int (exponente x)) \<le> \<bar>x\<bar>"
    using pos by (simp add: le_log_iff)
  then show ?thesis unfolding dos_powi_powr .
qed

lemma exponente_mono:
  assumes "0 < x" and "x \<le> y"
  shows "exponente x \<le> exponente y"
proof -
  have "log 2 \<bar>x\<bar> \<le> log 2 \<bar>y\<bar>" using assms by simp
  then have "\<lfloor>log 2 \<bar>x\<bar>\<rfloor> \<le> \<lfloor>log 2 \<bar>y\<bar>\<rfloor>" by (rule floor_mono)
  then show ?thesis using assms by (simp add: exponente_def)
qed

lemma ulp_nonneg [simp]: "0 \<le> ulp x"
  using ulp_pos [of x] by linarith

lemma ulp_neq_0 [simp]: "ulp x \<noteq> 0"
  using ulp_pos [of x] by linarith

lemma redondeo_par_0 [simp]: "redondeo_par 0 = 0"
  using redondeo_par_of_int [of 0] by simp

lemma dos_powi_53: "(2::real) powi 53 * 2 powi (e - 52) = 2 powi (e + 1)"
  using power_int_add [of "2::real" 53 "e - 52"] by (simp add: algebra_simps)

lemma dos_powi_52: "(2::real) powi 52 * 2 powi (e - 52) = 2 powi e"
  using power_int_add [of "2::real" 52 "e - 52"] by (simp add: algebra_simps)

lemma redondear_0 [simp]: "redondear 0 = 0"
  by (simp add: redondear_def)

lemma redondear_nonneg: "0 \<le> x \<Longrightarrow> 0 \<le> redondear x"
proof -
  assume "0 \<le> x"
  then have "of_int 0 \<le> x / ulp x" by simp
  then have "0 \<le> redondeo_par (x / ulp x)" by (rule redondeo_par_ge)
  then show ?thesis by (simp add: redondear_def)
qed

lemma redondear_mono:
  assumes "0 \<le> x" and "x \<le> y"
  shows "redondear x \<le> redondear y"
proof (cases "x = 0")
  case True
  then show ?thesis using assms redondear_nonneg [of y] by simp
next
  case False
  then have x: "0 < x" using assms by simp
  then have y: "0 < y" using assms by simp
  have e: "exponente x \<le> exponente y" using x assms(2) by (rule exponente_mono)
  show ?thesis
  proof (cases "exponente x = exponente y")
    case True
    then have u: "ulp x = ulp y" by (simp add: ulp_def)
    have "x / ulp y \<le> y / ulp y" using assms(2) by (simp add: divide_right_mono)
    then have "redondeo_par (x / ulp y) \<le> redondeo_par (y / ulp y)" by (rule redondeo_par_mono)
    then have "real_of_int (redondeo_par (x / ulp y)) \<le> real_of_int (redondeo_par (y / ulp y))"
      by simp
    then show ?thesis unfolding redondear_def u by (simp add: mult_right_mono)
  next
    case False
    with e have lt: "exponente x + 1 \<le> exponente y" by simp
    then have n: "- 1022 < exponente y" by (simp add: exponente_def split: if_splits)
    \<comment> \<open>the smaller one rounds to at most the top of its binade\<close>
    have "x < 2 powi (exponente x + 1)" using exponente_cota_sup [of x] x by simp
    then have "x / ulp x \<le> 2 powi (exponente x + 1) / ulp x"
      by (simp add: divide_right_mono)
    also have "2 powi (exponente x + 1) / ulp x = (2::real) powi 53"
      unfolding ulp_def by (simp flip: power_int_diff)
    also have "(2::real) powi 53 = of_int (2 ^ 53)" by simp
    finally have "redondeo_par (x / ulp x) \<le> 2 ^ 53" by (rule redondeo_par_le)
    then have "real_of_int (redondeo_par (x / ulp x)) \<le> 2 powi 53" by simp
    then have "redondear x \<le> 2 powi 53 * ulp x"
      unfolding redondear_def by (simp add: mult_right_mono)
    also have "2 powi 53 * ulp x = 2 powi (exponente x + 1)"
      unfolding ulp_def by (rule dos_powi_53)
    finally have a: "redondear x \<le> 2 powi (exponente x + 1)" .
    \<comment> \<open>the larger one rounds to at least the bottom of its binade\<close>
    have "2 powi (exponente y) \<le> y" using exponente_cota_inf [OF n] y by simp
    then have "2 powi (exponente y) / ulp y \<le> y / ulp y"
      by (simp add: divide_right_mono)
    moreover have "2 powi (exponente y) / ulp y = (2::real) powi 52"
      unfolding ulp_def by (simp flip: power_int_diff)
    moreover have "(2::real) powi 52 = of_int (2 ^ 52)" by simp
    ultimately have "of_int (2 ^ 52) \<le> y / ulp y" by simp
    then have "2 ^ 52 \<le> redondeo_par (y / ulp y)" by (rule redondeo_par_ge)
    then have "2 powi 52 \<le> real_of_int (redondeo_par (y / ulp y))" by simp
    then have "2 powi 52 * ulp y \<le> redondear y"
      unfolding redondear_def by (simp add: mult_right_mono)
    moreover have "2 powi 52 * ulp y = 2 powi (exponente y)"
      unfolding ulp_def by (rule dos_powi_52)
    ultimately have b: "2 powi (exponente y) \<le> redondear y" by simp
    have "(2::real) powi (exponente x + 1) \<le> 2 powi (exponente y)"
      using lt by (simp add: power_int_increasing)
    with a b show ?thesis by linarith
  qed
qed

text \<open>A value on the grid of its binade, plus less than half a unit, rounds to that value.\<close>

lemma redondear_absorbe:
  assumes "c = of_int m * 2 powi (k - 52)"
    and "2 powi k \<le> c" and "c + r < 2 powi (k + 1)"
    and "0 \<le> r" and "r < 2 powi (k - 53)" and "- 1022 \<le> k"
  shows "redondear (c + r) = c"
proof -
  have cpos: "0 < c" using assms(2) zero_less_power_int [of "2::real" k] by linarith
  have e: "exponente (c + r) = k"
    by (rule exponente_eq) (use assms cpos in auto)
  have u: "ulp (c + r) = 2 powi (k - 52)" by (simp add: ulp_def e)
  have h: "(2::real) powi (k - 53) / 2 powi (k - 52) = 1 / 2"
    by (simp flip: power_int_diff)
  have "r / 2 powi (k - 52) < 2 powi (k - 53) / 2 powi (k - 52)"
    using assms(5) by (simp add: divide_strict_right_mono)
  then have r: "r / 2 powi (k - 52) < 1 / 2" using h by simp
  have r0: "0 \<le> r / 2 powi (k - 52)" using assms(4) by simp
  have "(c + r) / 2 powi (k - 52) = of_int m + r / 2 powi (k - 52)"
    by (simp add: assms(1) add_divide_distrib)
  then have "redondeo_par ((c + r) / 2 powi (k - 52)) = m"
    using redondeo_par_cerca [OF r0 r, of m] by simp
  then have "redondear (c + r) = of_int m * 2 powi (k - 52)"
    unfolding redondear_def u by simp
  then show ?thesis using assms(1) by simp
qed

lemma redondear_exacto:
  assumes "x = of_int m * 2 powi (k - 52)"
    and "2 powi k \<le> x" and "x < 2 powi (k + 1)" and "- 1022 \<le> k"
  shows "redondear x = x"
  using redondear_absorbe [of x m k 0] assms by simp

lemma redondear_ejemplos:
  "redondear 1 = 1" "redondear 2 = 2" "redondear 3 = 3" "redondear 4 = 4" "redondear 5 = 5"
  "redondear 50 = 50" "redondear 100 = 100" "redondear 10 = 10" "redondear 40 = 40"
  "redondear 45 = 45" "redondear 25 = 25" "redondear 30 = 30" "redondear 35 = 35"
  "redondear (1 / 2 ^ 60) = 1 / 2 ^ 60" "redondear (1 / 2 ^ 61) = 1 / 2 ^ 61"
  "redondear (1 / 2 ^ 65) = 1 / 2 ^ 65"
                 apply (rule redondear_exacto [of _ "2 ^ 52" 0]; simp)
                apply (rule redondear_exacto [of _ "2 ^ 52" 1]; simp)
               apply (rule redondear_exacto [of _ "3 * 2 ^ 51" 1]; simp)
              apply (rule redondear_exacto [of _ "2 ^ 52" 2]; simp)
             apply (rule redondear_exacto [of _ "5 * 2 ^ 50" 2]; simp)
            apply (rule redondear_exacto [of _ "25 * 2 ^ 48" 5]; simp)
           apply (rule redondear_exacto [of _ "25 * 2 ^ 48" 6]; simp)
          apply (rule redondear_exacto [of _ "5 * 2 ^ 50" 3]; simp)
         apply (rule redondear_exacto [of _ "5 * 2 ^ 50" 5]; simp)
        apply (rule redondear_exacto [of _ "45 * 2 ^ 47" 5]; simp)
       apply (rule redondear_exacto [of _ "25 * 2 ^ 48" 4]; simp)
      apply (rule redondear_exacto [of _ "15 * 2 ^ 49" 4]; simp)
     apply (rule redondear_exacto [of _ "35 * 2 ^ 47" 5]; simp)
    apply (rule redondear_exacto [of _ "2 ^ 52" "- 60"]; simp)
   apply (rule redondear_exacto [of _ "2 ^ 52" "- 61"]; simp)
  apply (rule redondear_exacto [of _ "2 ^ 52" "- 65"]; simp)
  done

lemma max_double_pos: "0 < max_double"
  by (simp add: max_double_def)

lemma redondear_max_double: "redondear max_double = max_double"
  apply (rule redondear_exacto [of _ "2 ^ 53 - 1" 1023])
     apply (simp_all add: max_double_def)
  done

lemma redondear_dos_1020: "redondear (2 ^ 1020) = 2 ^ 1020"
  apply (rule redondear_exacto [of _ "2 ^ 52" 1020])
     apply simp_all
  done

lemma f64_acotado:
  assumes "0 \<le> x" and "x \<le> b" and "redondear b = b" and "b \<le> max_double"
  shows "f64 x = Some (redondear x) \<and> 0 \<le> redondear x \<and> redondear x \<le> b"
proof -
  have "redondear x \<le> redondear b" using assms(1,2) by (rule redondear_mono)
  then have "redondear x \<le> b" using assms(3) by simp
  moreover have "0 \<le> redondear x" using assms(1) by (rule redondear_nonneg)
  ultimately show ?thesis using assms(4) by (simp add: f64_def)
qed

lemma es_f64_D: "es_f64 x \<Longrightarrow> redondear x = x \<and> \<bar>x\<bar> \<le> max_double"
  by (auto simp: es_f64_def f64_def split: if_splits)

lemma es_f64_I: "redondear x = x \<Longrightarrow> \<bar>x\<bar> \<le> max_double \<Longrightarrow> es_f64 x"
  by (simp add: es_f64_def f64_def)

lemma tiempo_f64_valor:
  assumes "es_f64 d" and "0 \<le> d"
  shows "calcular_tiempo_base_f64 d = Some (redondear (redondear (d / 50.0) + 2.0))
       \<and> 0 \<le> redondear (d / 50.0)"
proof -
  have d: "d \<le> max_double" using es_f64_D [OF assms(1)] by linarith
  have m: "max_double / 50 \<le> 2 ^ 1020" by (simp add: max_double_def)
  have "d / 50 \<le> max_double / 50" using d by simp
  then have le: "d / 50 \<le> 2 ^ 1020" using m by linarith
  have b1: "(2::real) ^ 1020 \<le> max_double" by (simp add: max_double_def)
  have q: "f64 (d / 50) = Some (redondear (d / 50))" "0 \<le> redondear (d / 50)"
    "redondear (d / 50) \<le> 2 ^ 1020"
    using f64_acotado [of "d / 50" "2 ^ 1020", OF _ le redondear_dos_1020 b1] assms(2) by simp_all
  have "redondear (d / 50) + 2 \<le> max_double"
  proof -
    have "(2::real) ^ 1020 + 2 \<le> max_double" by (simp add: max_double_def)
    with q(3) show ?thesis by linarith
  qed
  then have "f64 (redondear (d / 50) + 2) = Some (redondear (redondear (d / 50) + 2))"
    using f64_acotado [of "redondear (d / 50) + 2" max_double, OF _ _ redondear_max_double] q(2)
    by simp
  then show ?thesis using q
    by (simp add: calcular_tiempo_base_f64_def)
qed

lemma tiempo_f64_mono:
  assumes "es_f64 d1" and "es_f64 d2" and "0 \<le> d1" and "d1 \<le> d2"
  shows "\<exists>t1 t2. calcular_tiempo_base_f64 d1 = Some t1 \<and> calcular_tiempo_base_f64 d2 = Some t2
           \<and> t1 \<le> t2"
proof -
  have d2: "0 \<le> d2" using assms(3,4) by linarith
  note v1 = tiempo_f64_valor [OF assms(1,3)]
  note v2 = tiempo_f64_valor [OF assms(2) d2]
  have "0 \<le> d1 / 50" using assms(3) by simp
  moreover have "d1 / 50 \<le> d2 / 50" using assms(4) by simp
  ultimately have "redondear (d1 / 50) \<le> redondear (d2 / 50)" by (rule redondear_mono)
  then have "redondear (d1 / 50) + 2 \<le> redondear (d2 / 50) + 2" by simp
  moreover have "0 \<le> redondear (d1 / 50) + 2" using v1 by simp
  ultimately have "redondear (redondear (d1 / 50) + 2) \<le> redondear (redondear (d2 / 50) + 2)"
    using redondear_mono by blast
  then show ?thesis using v1 v2 by simp
qed

lemma redondeo_par_error: "\<bar>real_of_int (redondeo_par q) - q\<bar> \<le> 1 / 2"
proof -
  have "of_int \<lfloor>q\<rfloor> \<le> q" "q < of_int \<lfloor>q\<rfloor> + 1" by linarith+
  then show ?thesis by (auto simp: redondeo_par_def)
qed

lemma redondear_error: "\<bar>redondear x - x\<bar> \<le> ulp x / 2"
proof -
  have "redondear x - x = (real_of_int (redondeo_par (x / ulp x)) - x / ulp x) * ulp x"
    by (simp add: redondear_def algebra_simps)
  then have "\<bar>redondear x - x\<bar> = \<bar>real_of_int (redondeo_par (x / ulp x)) - x / ulp x\<bar> * ulp x"
    by (simp add: abs_mult)
  also have "\<dots> \<le> (1 / 2) * ulp x"
    using redondeo_par_error [of "x / ulp x"] by (intro mult_right_mono) simp_all
  finally show ?thesis by simp
qed

lemma ulp_le:
  assumes "\<bar>x\<bar> < 2 powi (k + 1)" and "- 1022 \<le> k"
  shows "ulp x \<le> 2 powi (k - 52)"
proof -
  have "exponente x \<le> k"
  proof (cases "x = 0")
    case True
    then show ?thesis using assms(2) by (simp add: exponente_def)
  next
    case False
    then have pos: "0 < \<bar>x\<bar>" by simp
    have "\<bar>x\<bar> < 2 powr (of_int (k + 1))" using assms(1) unfolding dos_powi_powr .
    then have "log 2 \<bar>x\<bar> < of_int (k + 1)" using pos by (simp add: log_less_iff)
    then have "\<lfloor>log 2 \<bar>x\<bar>\<rfloor> < k + 1" unfolding floor_less_iff by simp
    then show ?thesis using False assms(2) by (simp add: exponente_def)
  qed
  then show ?thesis unfolding ulp_def by (simp add: power_int_increasing)
qed

lemma redondear_error_64:
  assumes "\<bar>x\<bar> < 64"
  shows "\<bar>redondear x - x\<bar> \<le> 1 / 2 ^ 48"
proof -
  have "ulp x \<le> 2 powi (5 - 52)"
    by (rule ulp_le) (use assms in simp_all)
  then have "ulp x / 2 \<le> 1 / 2 ^ 48" by (simp add: field_simps)
  with redondear_error [of x] show ?thesis by linarith
qed

lemma tiempo_f64_error:
  assumes "es_f64 d" and "0 \<le> d" and "d \<le> 2000"
  shows "\<exists>t. calcular_tiempo_base_f64 d = Some t \<and> \<bar>t - (d / 50 + 2)\<bar> \<le> 1 / 2 ^ 47"
proof -
  let ?q = "redondear (d / 50)"
  let ?t = "redondear (?q + 2)"
  have v: "calcular_tiempo_base_f64 d = Some ?t" "0 \<le> ?q"
    using tiempo_f64_valor [OF assms(1,2)] by simp_all
  have "\<bar>d / 50\<bar> < 64" using assms(2,3) by simp
  then have e1: "\<bar>?q - d / 50\<bar> \<le> 1 / 2 ^ 48" by (rule redondear_error_64)
  have "d / 50 \<le> 40" using assms(3) by simp
  moreover have "(1::real) / 2 ^ 48 \<le> 1" by simp
  ultimately have "?q \<le> 41" using e1 by linarith
  with v(2) have "\<bar>?q + 2\<bar> < 64" by simp
  then have e2: "\<bar>?t - (?q + 2)\<bar> \<le> 1 / 2 ^ 48" by (rule redondear_error_64)
  have "\<bar>?t - (d / 50 + 2)\<bar> \<le> \<bar>?t - (?q + 2)\<bar> + \<bar>?q - d / 50\<bar>" by linarith
  also have "\<dots> \<le> 1 / 2 ^ 48 + 1 / 2 ^ 48" using e1 e2 by linarith
  also have "\<dots> = 1 / 2 ^ 47" by simp
  finally show ?thesis using v(1) by blast
qed

lemma tiempo_f64_estricto:
  assumes "es_f64 d1" and "es_f64 d2" and "0 \<le> d1" and "d1 + 1 \<le> d2" and "d2 \<le> 2000"
  shows "\<exists>t1 t2. calcular_tiempo_base_f64 d1 = Some t1 \<and> calcular_tiempo_base_f64 d2 = Some t2
           \<and> t1 < t2"
proof -
  have b1: "d1 \<le> 2000" and b2: "0 \<le> d2" using assms(3,4,5) by linarith+
  from tiempo_f64_error [OF assms(1,3) b1] obtain t1 where
    t1: "calcular_tiempo_base_f64 d1 = Some t1" "\<bar>t1 - (d1 / 50 + 2)\<bar> \<le> 1 / 2 ^ 47" by blast
  from tiempo_f64_error [OF assms(2) b2 assms(5)] obtain t2 where
    t2: "calcular_tiempo_base_f64 d2 = Some t2" "\<bar>t2 - (d2 / 50 + 2)\<bar> \<le> 1 / 2 ^ 47" by blast
  have "d1 / 50 + 1 / 50 \<le> d2 / 50" using assms(4) by simp
  moreover have "(1::real) / 2 ^ 47 + 1 / 2 ^ 47 < 1 / 50" by simp
  ultimately have "t1 < t2" using t1(2) t2(2) by linarith
  with t1(1) t2(1) show ?thesis by blast
qed

lemma redondear_dos_1023: "redondear (2 ^ 1023) = 2 ^ 1023"
  apply (rule redondear_exacto [of _ "2 ^ 52" 1023])
     apply simp_all
  done

lemma costo_f64_valor:
  assumes "es_f64 d" and "es_f64 w" and "0 \<le> d" and "0 \<le> w"
  shows "calcular_costo_base_f64 d w = f64 (redondear (5.0 + redondear (0.5 * d)) + w)
       \<and> 0 \<le> redondear (0.5 * d)
       \<and> 0 \<le> redondear (5.0 + redondear (0.5 * d))"
proof -
  let ?a = "redondear (0.5 * d)"
  let ?b = "redondear (5.0 + ?a)"
  have d: "d \<le> max_double" using es_f64_D [OF assms(1)] by linarith
  have "max_double / 2 \<le> 2 ^ 1023" by (simp add: max_double_def)
  with d have le: "0.5 * d \<le> 2 ^ 1023" by simp
  have b1: "(2::real) ^ 1023 \<le> max_double" by (simp add: max_double_def)
  have a: "f64 (0.5 * d) = Some ?a" "0 \<le> ?a" "?a \<le> 2 ^ 1023"
    using f64_acotado [of "0.5 * d" "2 ^ 1023", OF _ le redondear_dos_1023 b1] assms(3)
    by simp_all
  have "(5::real) + 2 ^ 1023 \<le> max_double" by (simp add: max_double_def)
  with a(3) have "5.0 + ?a \<le> max_double" by simp
  then have b: "f64 (5.0 + ?a) = Some ?b" "0 \<le> ?b"
    using f64_acotado [of "5.0 + ?a" max_double, OF _ _ redondear_max_double] a(2)
    by simp_all
  have c: "f64 (1.0 * w) = Some w" using assms(2) by (simp add: es_f64_def)
  show ?thesis using a b c
    by (simp add: calcular_costo_base_f64_def)
qed

lemma f64_mono_Some:
  assumes "0 \<le> x" and "x \<le> y" and "f64 y = Some v"
  shows "\<exists>u. f64 x = Some u \<and> u \<le> v"
proof -
  have v: "v = redondear y" "redondear y \<le> max_double"
    using assms(3) by (auto simp: f64_def split: if_splits)
  have "redondear x \<le> redondear y" using assms(1,2) by (rule redondear_mono)
  moreover have "0 \<le> redondear x" using assms(1) by (rule redondear_nonneg)
  ultimately show ?thesis using v by (simp add: f64_def)
qed

lemma costo_f64_mono:
  assumes "es_f64 d" and "es_f64 d'" and "es_f64 w" and "es_f64 w'"
    and "0 \<le> d" and "d \<le> d'" and "0 \<le> w" and "w \<le> w'"
    and "calcular_costo_base_f64 d' w' = Some c'"
  shows "\<exists>c. calcular_costo_base_f64 d w = Some c \<and> c \<le> c'"
proof -
  have d': "0 \<le> d'" and w': "0 \<le> w'" using assms(5-8) by linarith+
  note v = costo_f64_valor [OF assms(1,3,5,7)]
  note v' = costo_f64_valor [OF assms(2,4) d' w']
  have "0 \<le> 0.5 * d" using assms(5) by simp
  moreover have "0.5 * d \<le> 0.5 * d'" using assms(6) by simp
  ultimately have "redondear (0.5 * d) \<le> redondear (0.5 * d')" by (rule redondear_mono)
  then have "5.0 + redondear (0.5 * d) \<le> 5.0 + redondear (0.5 * d')" by simp
  moreover have "0 \<le> 5.0 + redondear (0.5 * d)" using v by simp
  ultimately have "redondear (5.0 + redondear (0.5 * d)) \<le> redondear (5.0 + redondear (0.5 * d'))"
    using redondear_mono by blast
  then have le: "redondear (5.0 + redondear (0.5 * d)) + w
               \<le> redondear (5.0 + redondear (0.5 * d')) + w'"
    using assms(8) by linarith
  have nn: "0 \<le> redondear (5.0 + redondear (0.5 * d)) + w" using v assms(7) by simp
  have "f64 (redondear (5.0 + redondear (0.5 * d')) + w') = Some c'"
    using assms(9) v' by simp
  from f64_mono_Some [OF nn le this] show ?thesis using v by simp
qed

lemma redondear_error_4096:
  assumes "\<bar>x\<bar> < 4096"
  shows "\<bar>redondear x - x\<bar> \<le> 1 / 2 ^ 42"
proof -
  have "ulp x \<le> 2 powi (11 - 52)"
    by (rule ulp_le) (use assms in simp_all)
  then have "ulp x / 2 \<le> 1 / 2 ^ 42" by (simp add: field_simps)
  with redondear_error [of x] show ?thesis by linarith
qed

lemma costo_f64_error:
  assumes "es_f64 d" and "es_f64 w" and "0 \<le> d" and "d \<le> 2000" and "0 \<le> w" and "w \<le> 2000"
  shows "\<exists>c. calcular_costo_base_f64 d w = Some c \<and> \<bar>c - (5 + d / 2 + w)\<bar> \<le> 1 / 2 ^ 40"
proof -
  let ?a = "redondear (0.5 * d)"
  let ?b = "redondear (5.0 + ?a)"
  let ?c = "redondear (?b + w)"
  note v = costo_f64_valor [OF assms(1,2,3,5)]
  have s: "(1::real) / 2 ^ 42 \<le> 1" by simp
  have "\<bar>0.5 * d\<bar> < 4096" using assms(3,4) by simp
  then have e1: "\<bar>?a - 0.5 * d\<bar> \<le> 1 / 2 ^ 42" by (rule redondear_error_4096)
  have a: "0 \<le> ?a" "?a \<le> 1001" using v e1 s assms(4) by linarith+
  then have "\<bar>5.0 + ?a\<bar> < 4096" by simp
  then have e2: "\<bar>?b - (5.0 + ?a)\<bar> \<le> 1 / 2 ^ 42" by (rule redondear_error_4096)
  have b: "0 \<le> ?b" "?b \<le> 1007" using v e2 s a by linarith+
  then have bw: "\<bar>?b + w\<bar> < 4096" using assms(5,6) by simp
  then have e3: "\<bar>?c - (?b + w)\<bar> \<le> 1 / 2 ^ 42" by (rule redondear_error_4096)
  have "?c \<le> ?b + w + 1" using e3 s by linarith
  moreover have "(3008::real) \<le> max_double" by (simp add: max_double_def)
  moreover have "0 \<le> ?c" using b(1) assms(5) by (simp add: redondear_nonneg)
  ultimately have "\<bar>?c\<bar> \<le> max_double" using b(2) assms(6) by linarith
  then have f: "calcular_costo_base_f64 d w = Some ?c" using v by (simp add: f64_def)
  have "(1::real) / 2 ^ 42 + 1 / 2 ^ 42 + 1 / 2 ^ 42 \<le> 1 / 2 ^ 40" by simp
  then have "\<bar>?c - (5 + d / 2 + w)\<bar> \<le> 1 / 2 ^ 40" using e1 e2 e3 by linarith
  with f show ?thesis by blast
qed

lemma costo_f64_estricto_distancia:
  assumes "es_f64 d" and "es_f64 d'" and "es_f64 w"
    and "0 \<le> d" and "d + 1 \<le> d'" and "d' \<le> 2000" and "0 \<le> w" and "w \<le> 2000"
  shows "\<exists>c c'. calcular_costo_base_f64 d w = Some c \<and> calcular_costo_base_f64 d' w = Some c'
           \<and> c < c'"
proof -
  have b: "d \<le> 2000" "0 \<le> d'" using assms(4,5,6) by linarith+
  from costo_f64_error [OF assms(1,3,4) b(1) assms(7,8)] obtain c where
    c: "calcular_costo_base_f64 d w = Some c" "\<bar>c - (5 + d / 2 + w)\<bar> \<le> 1 / 2 ^ 40" by blast
  from costo_f64_error [OF assms(2,3) b(2) assms(6,7,8)] obtain c' where
    c': "calcular_costo_base_f64 d' w = Some c'" "\<bar>c' - (5 + d' / 2 + w)\<bar> \<le> 1 / 2 ^ 40" by blast
  have "d / 2 + 1 / 2 \<le> d' / 2" using assms(5) by simp
  moreover have "(1::real) / 2 ^ 40 + 1 / 2 ^ 40 < 1 / 2" by simp
  ultimately have "c < c'" using c(2) c'(2) by linarith
  with c(1) c'(1) show ?thesis by blast
qed

lemma costo_f64_estricto_peso:
  assumes "es_f64 d" and "es_f64 w" and "es_f64 w'"
    and "0 \<le> d" and "d \<le> 2000" and "0 \<le> w" and "w + 1 \<le> w'" and "w' \<le> 2000"
  shows "\<exists>c c'. calcular_costo_base_f64 d w = Some c \<and> calcular_costo_base_f64 d w' = Some c'
           \<and> c < c'"
proof -
  have b: "w \<le> 2000" "0 \<le> w'" using assms(6,7,8) by linarith+
  from costo_f64_error [OF assms(1,2,4,5,6) b(1)] obtain c where
    c: "calcular_costo_base_f64 d w = Some c" "\<bar>c - (5 + d / 2 + w)\<bar> \<le> 1 / 2 ^ 40" by blast
  from costo_f64_error [OF assms(1,3,4,5) b(2) assms(8)] obtain c' where
    c': "calcular_costo_base_f64 d w' = Some c'" "\<bar>c' - (5 + d / 2 + w')\<bar> \<le> 1 / 2 ^ 40" by blast
  have "(1::real) / 2 ^ 40 + 1 / 2 ^ 40 < 1" by simp
  then have "c < c'" using c(2) c'(2) assms(7) by linarith
  with c(1) c'(1) show ?thesis by blast
qed

lemma f64_I: "redondear x = v \<Longrightarrow> \<bar>v\<bar> \<le> max_double \<Longrightarrow> f64 x = Some v"
  by (simp add: f64_def)

lemma max_double_ge: "\<bar>x\<bar> \<le> 100 \<Longrightarrow> \<bar>x\<bar> \<le> max_double"
proof -
  have "(100::real) \<le> max_double" by (simp add: max_double_def)
  then show "\<bar>x\<bar> \<le> 100 \<Longrightarrow> \<bar>x\<bar> \<le> max_double" by linarith
qed

lemma f64_exacto: "redondear x = x \<Longrightarrow> 0 \<le> x \<Longrightarrow> x \<le> 100 \<Longrightarrow> f64 x = Some x"
  by (rule f64_I, assumption, rule max_double_ge) simp

lemma diminuto_cotas: "0 < diminuto" "diminuto \<le> 1" "diminuto < 1 / 2 ^ 53"
  by (simp_all add: diminuto_def)

lemma redondear_diminuto: "redondear diminuto = diminuto"
  unfolding diminuto_def by (rule redondear_ejemplos)

lemma es_f64_ejemplos:
  "es_f64 0" "es_f64 1" "es_f64 10" "es_f64 50" "es_f64 100"
  by (simp_all add: es_f64_def f64_exacto redondear_ejemplos)

lemma es_f64_diminuto: "es_f64 diminuto"
proof (rule es_f64_I)
  show "redondear diminuto = diminuto" by (rule redondear_diminuto)
  have "\<bar>diminuto\<bar> \<le> 100" using diminuto_cotas by linarith
  then show "\<bar>diminuto\<bar> \<le> max_double" by (rule max_double_ge)
qed

lemma tiempo_f64_0: "calcular_tiempo_base_f64 0 = Some 2"
  using tiempo_f64_valor [of 0] by (simp add: es_f64_ejemplos redondear_ejemplos)

lemma tiempo_f64_50: "calcular_tiempo_base_f64 50 = Some 3"
  using tiempo_f64_valor [of 50] by (simp add: es_f64_ejemplos redondear_ejemplos)

lemma tiempo_f64_100: "calcular_tiempo_base_f64 100 = Some 4"
  using tiempo_f64_valor [of 100] by (simp add: es_f64_ejemplos redondear_ejemplos)

lemma redondear_absorbe_2:
  assumes "0 \<le> r" and "r < 1 / 2 ^ 53"
  shows "redondear (2 + r) = 2"
proof (rule redondear_absorbe [of _ "2 ^ 52" 1])
  show "(2::real) = real_of_int (2 ^ 52) * 2 powi (1 - 52)" by simp
  show "(2::real) powi 1 \<le> 2" by simp
  have "(1::real) / 2 ^ 53 \<le> 1" by simp
  then show "2 + r < 2 powi (1 + 1)" using assms(2) by simp
  show "0 \<le> r" by (rule assms(1))
  have "(2::real) powi (1 - 53) = 1 / 2 ^ 52" by (simp add: field_simps)
  moreover have "(1::real) / 2 ^ 53 \<le> 1 / 2 ^ 52" by simp
  ultimately show "r < 2 powi (1 - 53)" using assms(2) by linarith
  show "- 1022 \<le> (1::int)" by simp
qed

lemma redondear_absorbe_5:
  assumes "0 \<le> r" and "r < 1 / 2 ^ 53"
  shows "redondear (5 + r) = 5"
proof (rule redondear_absorbe [of _ "5 * 2 ^ 50" 2])
  show "(5::real) = real_of_int (5 * 2 ^ 50) * 2 powi (2 - 52)" by simp
  show "(2::real) powi 2 \<le> 5" by simp
  have "(1::real) / 2 ^ 53 \<le> 1" by simp
  then show "5 + r < 2 powi (2 + 1)" using assms(2) by simp
  show "0 \<le> r" by (rule assms(1))
  have "(2::real) powi (2 - 53) = 1 / 2 ^ 51" by (simp add: field_simps)
  moreover have "(1::real) / 2 ^ 53 \<le> 1 / 2 ^ 51" by simp
  ultimately show "r < 2 powi (2 - 53)" using assms(2) by linarith
  show "- 1022 \<le> (2::int)" by simp
qed

lemma tiempo_f64_diminuto: "calcular_tiempo_base_f64 diminuto = Some 2"
proof -
  let ?q = "redondear (diminuto / 50.0)"
  have "0 \<le> diminuto / 50.0" using diminuto_cotas by simp
  moreover have "diminuto / 50.0 \<le> diminuto" using diminuto_cotas by simp
  ultimately have "?q \<le> redondear diminuto" by (rule redondear_mono)
  then have q1: "?q < 1 / 2 ^ 53" using redondear_diminuto diminuto_cotas(3) by linarith
  have q0: "0 \<le> ?q" by (rule redondear_nonneg) (use diminuto_cotas in simp)
  have "redondear (2 + ?q) = 2" using q0 q1 by (rule redondear_absorbe_2)
  then have r: "redondear (?q + 2.0) = 2" by (simp add: add.commute)
  have "calcular_tiempo_base_f64 diminuto = Some (redondear (?q + 2.0))"
    using tiempo_f64_valor [OF es_f64_diminuto] diminuto_cotas by simp
  then show ?thesis unfolding r .
qed

lemma costo_f64_0_0: "calcular_costo_base_f64 0 0 = Some 5"
  using costo_f64_valor [of 0 0]
  by (simp add: es_f64_ejemplos redondear_ejemplos f64_exacto)

lemma costo_f64_50_10: "calcular_costo_base_f64 50 10 = Some 40"
  using costo_f64_valor [of 50 10]
  by (simp add: es_f64_ejemplos redondear_ejemplos f64_exacto)

lemma costo_f64_diminuto_distancia: "calcular_costo_base_f64 diminuto 0 = Some 5"
proof -
  let ?a = "redondear (0.5 * diminuto)"
  have "0 \<le> 0.5 * diminuto" using diminuto_cotas by simp
  moreover have "0.5 * diminuto \<le> diminuto" using diminuto_cotas by simp
  ultimately have "?a \<le> redondear diminuto" by (rule redondear_mono)
  then have a1: "?a < 1 / 2 ^ 53" using redondear_diminuto diminuto_cotas(3) by linarith
  have a0: "0 \<le> ?a" by (rule redondear_nonneg) (use diminuto_cotas in simp)
  have b: "redondear (5 + ?a) = 5" using a0 a1 by (rule redondear_absorbe_5)
  have "calcular_costo_base_f64 diminuto 0 = f64 (redondear (5.0 + ?a) + 0)"
    using costo_f64_valor [OF es_f64_diminuto es_f64_ejemplos(1)] diminuto_cotas by simp
  also have "\<dots> = f64 5" using b by simp
  also have "\<dots> = Some 5" by (simp add: f64_exacto redondear_ejemplos)
  finally show ?thesis .
qed

lemma costo_f64_diminuto_peso: "calcular_costo_base_f64 0 diminuto = Some 5"
proof -
  have b: "redondear (5 + diminuto) = 5"
    using diminuto_cotas by (intro redondear_absorbe_5) simp_all
  have "calcular_costo_base_f64 0 diminuto = f64 (redondear (5.0 + redondear (0.5 * 0)) + diminuto)"
    using costo_f64_valor [OF es_f64_ejemplos(1) es_f64_diminuto] diminuto_cotas by simp
  also have "\<dots> = f64 (5 + diminuto)" by (simp add: redondear_ejemplos)
  also have "\<dots> = Some 5"
  proof (rule f64_I [OF b])
    show "\<bar>5::real\<bar> \<le> max_double" by (rule max_double_ge) simp
  qed
  finally show ?thesis .
qed

section \<open>The claims\<close>

subsection \<open>C1: the quote is the product of base value and the three multipliers\<close>

text \<open>
  Claim C1. For every distance, every delay probability \<open>p\<close> answered by the classifier
  and every registered pair of modality and profile, \<open>predecir_envio\<close> returns a
  prediction whose \<open>tiempo_horas\<close> is the base time times the risk time multiplier of
  \<open>p\<close> times the modality's and the profile's time multipliers, and whose \<open>costo_usd\<close>
  is the base cost (weight 10.0) times the risk cost multiplier times the modality's and the
  profile's cost multipliers; the registered tables hold exactly the multipliers the
  specification lists. The equalities are exact in the real-number model, hence within the
  relative tolerance \<open>1e-9\<close>.
\<close>

theorem predecir_envio_producto:
  assumes "(modalidad, md) \<in> set MODALIDADES"
    and "(perfil, pf) \<in> set PERFILES"
    and "m datos = Inr p"
  shows "\<exists>q. predecir_envio (Some m) datos modalidad perfil = Inr q
           \<and> tiempo_horas q =
               calcular_tiempo_base (Distancia_KM datos) * spec_riskTimeMultiplier p
                 * tiempo md * tiempo pf
           \<and> costo_usd q =
               calcular_costo_base (Distancia_KM datos) 10.0 * spec_riskCostMultiplier p
                 * costo md * costo pf
           \<and> \<bar>tiempo_horas q - calcular_tiempo_base (Distancia_KM datos)
                 * spec_riskTimeMultiplier p * tiempo md * tiempo pf\<bar>
               \<le> (1 / 10 ^ 9) * \<bar>calcular_tiempo_base (Distancia_KM datos)
                 * spec_riskTimeMultiplier p * tiempo md * tiempo pf\<bar>
           \<and> \<bar>costo_usd q - calcular_costo_base (Distancia_KM datos) 10.0
                 * spec_riskCostMultiplier p * costo md * costo pf\<bar>
               \<le> (1 / 10 ^ 9) * \<bar>calcular_costo_base (Distancia_KM datos) 10.0
                 * spec_riskCostMultiplier p * costo md * costo pf\<bar>
           \<and> MODALIDADES =
               [(economico, \<lparr>tiempo = 1.3, costo = 0.8\<rparr>),
                (estandar, \<lparr>tiempo = 1.0, costo = 1.0\<rparr>),
                (''express'', \<lparr>tiempo = 0.7, costo = 1.5\<rparr>)]
           \<and> PERFILES =
               [(''urgente'', \<lparr>tiempo = 0.9, costo = 1.2\<rparr>),
                (economico, \<lparr>tiempo = 1.1, costo = 0.8\<rparr>)]"
proof -
  have md: "dict_get MODALIDADES modalidad = Inr md"
    using assms(1) by (simp add: MODALIDADES_entradas)
  have pf: "dict_get PERFILES perfil = Inr pf"
    using assms(2) by (simp add: PERFILES_entradas)
  have tablas: "MODALIDADES =
               [(economico, \<lparr>tiempo = 1.3, costo = 0.8\<rparr>),
                (estandar, \<lparr>tiempo = 1.0, costo = 1.0\<rparr>),
                (''express'', \<lparr>tiempo = 0.7, costo = 1.5\<rparr>)]"
     "PERFILES =
               [(''urgente'', \<lparr>tiempo = 0.9, costo = 1.2\<rparr>),
                (economico, \<lparr>tiempo = 1.1, costo = 0.8\<rparr>)]"
    by (simp_all add: MODALIDADES_def PERFILES_def)
  have "\<exists>q. predecir_envio (Some m) datos modalidad perfil = Inr q
           \<and> tiempo_horas q =
               calcular_tiempo_base (Distancia_KM datos) * spec_riskTimeMultiplier p
                 * tiempo md * tiempo pf
           \<and> costo_usd q =
               calcular_costo_base (Distancia_KM datos) 10.0 * spec_riskCostMultiplier p
                 * costo md * costo pf"
    unfolding predecir_envio_ok [of m datos p, OF assms(3) md pf] ajuste_riesgo_mult
    by (simp add: peso_kg_default_def)
  then obtain q where q: "predecir_envio (Some m) datos modalidad perfil = Inr q"
    and t: "tiempo_horas q =
               calcular_tiempo_base (Distancia_KM datos) * spec_riskTimeMultiplier p
                 * tiempo md * tiempo pf"
    and c: "costo_usd q =
               calcular_costo_base (Distancia_KM datos) 10.0 * spec_riskCostMultiplier p
                 * costo md * costo pf"
    by blast
  have "\<bar>tiempo_horas q - calcular_tiempo_base (Distancia_KM datos)
                 * spec_riskTimeMultiplier p * tiempo md * tiempo pf\<bar>
               \<le> (1 / 10 ^ 9) * \<bar>calcular_tiempo_base (Distancia_KM datos)
                 * spec_riskTimeMultiplier p * tiempo md * tiempo pf\<bar>"
    unfolding t by simp
  moreover have "\<bar>costo_usd q - calcular_costo_base (Distancia_KM datos) 10.0
                 * spec_riskCostMultiplier p * costo md * costo pf\<bar>
               \<le> (1 / 10 ^ 9) * \<bar>calcular_costo_base (Distancia_KM datos) 10.0
                 * spec_riskCostMultiplier p * costo md * costo pf\<bar>"
    unfolding c by simp
  ultimately show ?thesis using q t c tablas by blast
qed

text \<open>
  The specification's first end-to-end scenario: 50 km, probability 0.75, modality
  express, profile urgente give 2.835 hours and a cost of 93.6.
\<close>

theorem predecir_envio_producto_witness:
  "(''express'', \<lparr>tiempo = 0.7, costo = 1.5\<rparr>) \<in> set MODALIDADES
   \<and> (''urgente'', \<lparr>tiempo = 0.9, costo = 1.2\<rparr>) \<in> set PERFILES
   \<and> clasificador_fijo 0.75 (datos_ejemplo 50) = Inr 0.75
   \<and> (\<exists>q. predecir_envio (Some (clasificador_fijo 0.75)) (datos_ejemplo 50)
              ''express'' ''urgente'' = Inr q
          \<and> tiempo_horas q = 2.835 \<and> costo_usd q = 93.6)"
proof -
  have h1: "(''express'', \<lparr>tiempo = 0.7, costo = 1.5\<rparr>) \<in> set MODALIDADES"
    by (simp add: MODALIDADES_def)
  have h2: "(''urgente'', \<lparr>tiempo = 0.9, costo = 1.2\<rparr>) \<in> set PERFILES"
    by (simp add: PERFILES_def)
  have h3: "clasificador_fijo 0.75 (datos_ejemplo 50) = Inr 0.75"
    by (simp add: clasificador_fijo_def)
  from predecir_envio_producto [OF h1 h2, of "clasificador_fijo 0.75" "datos_ejemplo 50" "0.75", OF h3]
  obtain q where q: "predecir_envio (Some (clasificador_fijo 0.75)) (datos_ejemplo 50)
              ''express'' ''urgente'' = Inr q"
    and t: "tiempo_horas q =
               calcular_tiempo_base (Distancia_KM (datos_ejemplo 50)) * spec_riskTimeMultiplier 0.75
                 * tiempo \<lparr>tiempo = 0.7, costo = 1.5\<rparr> * tiempo \<lparr>tiempo = 0.9, costo = 1.2\<rparr>"
    and c: "costo_usd q =
               calcular_costo_base (Distancia_KM (datos_ejemplo 50)) 10.0 * spec_riskCostMultiplier 0.75
                 * costo \<lparr>tiempo = 0.7, costo = 1.5\<rparr> * costo \<lparr>tiempo = 0.9, costo = 1.2\<rparr>"
    by blast
  have "tiempo_horas q = 2.835"
    unfolding t by (simp add: calcular_tiempo_base_def datos_ejemplo_def spec_riskTimeMultiplier_def)
  moreover have "costo_usd q = 93.6"
    unfolding c by (simp add: calcular_costo_base_def datos_ejemplo_def spec_riskCostMultiplier_def)
  ultimately show ?thesis using h1 h2 h3 q by blast
qed

subsection \<open>C2: the risk level depends on the probability alone, with two breakpoints\<close>

text \<open>
  Claim C2. The risk level of a prediction is a function of the delay probability \<open>p\<close>
  alone: \<open>alto\<close> (time times 1.5, cost times 1.30) when \<open>p > 0.6\<close>, \<open>medio\<close> (time
  times 1.2, cost times 1.15) when \<open>0.4 < p \<le> 0.6\<close>, and \<open>bajo\<close> (time and cost
  unchanged) when \<open>p \<le> 0.4\<close>. In particular 0.6 gives \<open>medio\<close>, 0.4 gives \<open>bajo\<close>,
  0.61 gives \<open>alto\<close> and 0.0 gives \<open>bajo\<close>.
\<close>

theorem riesgo_dos_umbrales:
  assumes "m datos = Inr p"
    and "predecir_envio (Some m) datos modalidad perfil = Inr q"
  shows "riesgo q =
           (if p > 0.6 then ''alto'' else if 0.4 < p \<and> p \<le> 0.6 then ''medio'' else ''bajo'')
       \<and> ajuste_riesgo p tb cb =
           (if p > 0.6 then (tb * 1.5, cb * 1.30, ''alto'')
            else if 0.4 < p \<and> p \<le> 0.6 then (tb * 1.2, cb * 1.15, ''medio'')
            else (tb * 1.0, cb * 1.0, ''bajo''))
       \<and> snd (snd (ajuste_riesgo 0.6 tb cb)) = ''medio''
       \<and> snd (snd (ajuste_riesgo 0.4 tb cb)) = ''bajo''
       \<and> snd (snd (ajuste_riesgo 0.61 tb cb)) = ''alto''
       \<and> snd (snd (ajuste_riesgo 0.0 tb cb)) = ''bajo''"
proof -
  from predecir_envio_Inr_D [OF assms(2)]
  obtain md pf where l: "dict_get MODALIDADES modalidad = Inr md" "dict_get PERFILES perfil = Inr pf"
    by auto
  have "riesgo q = snd (snd (ajuste_riesgo p (calcular_tiempo_base (Distancia_KM datos))
                     (calcular_costo_base (Distancia_KM datos) peso_kg_default)))"
    using assms(2) unfolding predecir_envio_ok [of m datos p, OF assms(1) l] by auto
  then show ?thesis by (simp add: ajuste_riesgo_def)
qed

text \<open>At the breakpoint 0.6 itself the level is \<open>medio\<close>.\<close>

theorem riesgo_dos_umbrales_witness:
  "clasificador_fijo 0.6 (datos_ejemplo 50) = Inr 0.6
   \<and> (\<exists>q. predecir_envio (Some (clasificador_fijo 0.6)) (datos_ejemplo 50) estandar ''urgente''
            = Inr q
         \<and> riesgo q = ''medio'')"
proof -
  have h: "clasificador_fijo 0.6 (datos_ejemplo 50) = Inr 0.6"
    by (simp add: clasificador_fijo_def)
  obtain q where q:
    "predecir_envio (Some (clasificador_fijo 0.6)) (datos_ejemplo 50) estandar ''urgente'' = Inr q"
    by (simp add: predecir_envio_eval dict_get_tabla)
  from riesgo_dos_umbrales [of "clasificador_fijo 0.6" "datos_ejemplo 50" "0.6", OF h q]
  have "riesgo q = ''medio''" by simp
  with h q show ?thesis by blast
qed

subsection \<open>C3: the base time\<close>

text \<open>
  Claim C3 says that the base time is strictly increasing on the distances \<open>d \<ge> 0\<close>. In
  the arithmetic of the program it is not: the distances \<open>0.0\<close> and \<open>2^-60\<close> are both
  doubles, the second is larger, and both give exactly \<open>2.0\<close>, because \<open>2^-60 / 50.0\<close>
  is far below half the spacing of the doubles around 2.
\<close>

theorem tiempo_base_no_estricto:
  "es_f64 0 \<and> es_f64 (1 / 2 ^ 60) \<and> (0::real) < 1 / 2 ^ 60
   \<and> calcular_tiempo_base_f64 0 = Some 2
   \<and> calcular_tiempo_base_f64 (1 / 2 ^ 60) = Some 2"
  using es_f64_ejemplos(1) es_f64_diminuto diminuto_cotas(1) tiempo_f64_0 tiempo_f64_diminuto
  unfolding diminuto_def by blast

text \<open>
  Claim C3, amended. For every distance \<open>d \<ge> 0\<close> the base time is \<open>d / 50.0 + 2.0\<close>
  computed in double precision (the quotient rounded, then the sum rounded; for distances
  up to 2000 within \<open>2^-47\<close> of the exact value); it is 2.0 at distance 0; it is
  non-decreasing in the distance, and strictly increasing between two distances at least 1
  apart and up to 2000, hence over the values of the distance widget.
\<close>

theorem calcular_tiempo_base_creciente:
  assumes "es_f64 d1" and "es_f64 d2" and "0 \<le> d1" and "d1 \<le> d2"
  shows "\<exists>t1 t2. calcular_tiempo_base_f64 d1 = Some t1
           \<and> calcular_tiempo_base_f64 d2 = Some t2
           \<and> t1 = redondear (redondear (d1 / 50.0) + 2.0)
           \<and> t1 \<le> t2
           \<and> (d1 + 1 \<le> d2 \<and> d2 \<le> 2000 \<longrightarrow> t1 < t2)
           \<and> (d1 \<le> 2000 \<longrightarrow> \<bar>t1 - calcular_tiempo_base d1\<bar> \<le> 1 / 2 ^ 47)
           \<and> calcular_tiempo_base_f64 0 = Some 2.0"
proof -
  from tiempo_f64_mono [OF assms] obtain t1 t2 where
    t: "calcular_tiempo_base_f64 d1 = Some t1" "calcular_tiempo_base_f64 d2 = Some t2" "t1 \<le> t2"
    by blast
  have v: "t1 = redondear (redondear (d1 / 50.0) + 2.0)"
    using tiempo_f64_valor [OF assms(1,3)] t(1) by simp
  have s: "t1 < t2" if "d1 + 1 \<le> d2" "d2 \<le> 2000"
    using tiempo_f64_estricto [OF assms(1,2,3) that] t(1,2) by auto
  have e: "\<bar>t1 - calcular_tiempo_base d1\<bar> \<le> 1 / 2 ^ 47" if "d1 \<le> 2000"
    using tiempo_f64_error [OF assms(1,3) that] t(1) by (auto simp: calcular_tiempo_base_def)
  have z: "calcular_tiempo_base_f64 0 = Some 2.0" using tiempo_f64_0 by simp
  from t v s e z show ?thesis by blast
qed

text \<open>The distances 50 and 100 are doubles; their base times are 3 and 4.\<close>

theorem calcular_tiempo_base_creciente_witness:
  "es_f64 50 \<and> es_f64 100 \<and> (0::real) \<le> 50 \<and> (50::real) \<le> 100
   \<and> (\<exists>t1 t2. calcular_tiempo_base_f64 50 = Some t1 \<and> calcular_tiempo_base_f64 100 = Some t2
         \<and> t1 = 3 \<and> t2 = 4 \<and> t1 < t2)"
proof -
  have h1: "es_f64 50" and h2: "es_f64 100" by (rule es_f64_ejemplos)+
  have h3: "(0::real) \<le> 50" and h4: "(50::real) \<le> 100" by simp_all
  from calcular_tiempo_base_creciente [OF h1 h2 h3 h4] obtain t1 t2 where
    t: "calcular_tiempo_base_f64 50 = Some t1" "calcular_tiempo_base_f64 100 = Some t2"
       "(50::real) + 1 \<le> 100 \<and> (100::real) \<le> 2000 \<longrightarrow> t1 < t2"
    by blast
  have "t1 = 3" "t2 = 4" using t(1,2) tiempo_f64_50 tiempo_f64_100 by simp_all
  moreover have "t1 < t2" using t(3) by simp
  ultimately show ?thesis using h1 h2 h3 h4 t(1,2) by blast
qed

subsection \<open>C4: the base cost\<close>

text \<open>
  Claim C4 says that the base cost is strictly increasing in the distance and in the
  weight. In the arithmetic of the program it is not: with \<open>2^-60\<close> in place of 0 for
  the distance, or for the weight, the cost is still exactly \<open>5.0\<close>.
\<close>

theorem costo_base_no_estricto:
  "es_f64 0 \<and> es_f64 (1 / 2 ^ 60) \<and> (0::real) < 1 / 2 ^ 60
   \<and> calcular_costo_base_f64 0 0 = Some 5
   \<and> calcular_costo_base_f64 (1 / 2 ^ 60) 0 = Some 5
   \<and> calcular_costo_base_f64 0 (1 / 2 ^ 60) = Some 5"
  using es_f64_ejemplos(1) es_f64_diminuto diminuto_cotas(1) costo_f64_0_0
    costo_f64_diminuto_distancia costo_f64_diminuto_peso
  unfolding diminuto_def by blast

text \<open>
  Claim C4, amended. For every distance \<open>d \<ge> 0\<close> and weight \<open>w \<ge> 0\<close> the base cost is
  \<open>5.0 + 0.5 * d + 1.0 * w\<close> computed in double precision (for arguments up to 2000
  within \<open>2^-40\<close> of the exact value), the weight being 10.0 when the argument is
  omitted; the cost is 5.0 at distance 0 and weight 0; it is non-decreasing in the distance
  and in the weight, each with the other fixed (a finite cost at the larger argument bounds
  the cost at the smaller one), and strictly increasing between two distances, or two
  weights, at least 1 apart when the arguments are up to 2000.
\<close>

theorem calcular_costo_base_creciente:
  assumes "es_f64 d" and "es_f64 d'" and "es_f64 w" and "es_f64 w'"
    and "0 \<le> d" and "d \<le> d'" and "0 \<le> w" and "w \<le> w'"
  shows "(\<forall>c'. calcular_costo_base_f64 d' w = Some c' \<longrightarrow>
            (\<exists>c. calcular_costo_base_f64 d w = Some c \<and> c \<le> c'))
       \<and> (\<forall>c'. calcular_costo_base_f64 d w' = Some c' \<longrightarrow>
            (\<exists>c. calcular_costo_base_f64 d w = Some c \<and> c \<le> c'))
       \<and> (d + 1 \<le> d' \<and> d' \<le> 2000 \<and> w \<le> 2000 \<longrightarrow>
            (\<exists>c c'. calcular_costo_base_f64 d w = Some c
               \<and> calcular_costo_base_f64 d' w = Some c' \<and> c < c'))
       \<and> (w + 1 \<le> w' \<and> w' \<le> 2000 \<and> d \<le> 2000 \<longrightarrow>
            (\<exists>c c'. calcular_costo_base_f64 d w = Some c
               \<and> calcular_costo_base_f64 d w' = Some c' \<and> c < c'))
       \<and> (d \<le> 2000 \<and> w \<le> 2000 \<longrightarrow>
            (\<exists>c. calcular_costo_base_f64 d w = Some c
               \<and> \<bar>c - calcular_costo_base d w\<bar> \<le> 1 / 2 ^ 40))
       \<and> calcular_costo_base_f64 d w
            = f64 (redondear (5.0 + redondear (0.5 * d)) + redondear (1.0 * w))
       \<and> calcular_costo_base_f64 0 0 = Some 5.0
       \<and> peso_kg_default = 10.0 \<and> es_f64 peso_kg_default"
proof -
  have a: "\<exists>c. calcular_costo_base_f64 d w = Some c \<and> c \<le> c'"
    if "calcular_costo_base_f64 d' w = Some c'" for c'
    using costo_f64_mono [OF assms(1,2,3,3,5,6,7) order_refl that] .
  have b: "\<exists>c. calcular_costo_base_f64 d w = Some c \<and> c \<le> c'"
    if "calcular_costo_base_f64 d w' = Some c'" for c'
    using costo_f64_mono [OF assms(1,1,3,4,5) order_refl assms(7,8) that] .
  have c: "\<exists>c c'. calcular_costo_base_f64 d w = Some c
               \<and> calcular_costo_base_f64 d' w = Some c' \<and> c < c'"
    if "d + 1 \<le> d'" "d' \<le> 2000" "w \<le> 2000"
    using costo_f64_estricto_distancia [OF assms(1,2,3,5) that(1,2) assms(7) that(3)] .
  have e: "\<exists>c c'. calcular_costo_base_f64 d w = Some c
               \<and> calcular_costo_base_f64 d w' = Some c' \<and> c < c'"
    if "w + 1 \<le> w'" "w' \<le> 2000" "d \<le> 2000"
    using costo_f64_estricto_peso [OF assms(1,3,4,5) that(3) assms(7) that(1,2)] .
  have f: "\<exists>c. calcular_costo_base_f64 d w = Some c
               \<and> \<bar>c - calcular_costo_base d w\<bar> \<le> 1 / 2 ^ 40"
    if "d \<le> 2000" "w \<le> 2000"
    using costo_f64_error [OF assms(1,3,5) that(1) assms(7) that(2)]
    by (simp add: calcular_costo_base_def)
  have "redondear w = w" using es_f64_D [OF assms(3)] by simp
  then have g: "calcular_costo_base_f64 d w
            = f64 (redondear (5.0 + redondear (0.5 * d)) + redondear (1.0 * w))"
    using costo_f64_valor [OF assms(1,3,5,7)] by simp
  have h: "calcular_costo_base_f64 0 0 = Some 5.0" using costo_f64_0_0 by simp
  have i: "peso_kg_default = 10.0 \<and> es_f64 peso_kg_default"
    using es_f64_ejemplos(3) by (simp add: peso_kg_default_def)
  from a b c e f g h i show ?thesis by blast
qed

text \<open>
  The cost of 50 km at the default weight is 40, and it is smaller than the cost of
  100 km at that weight.
\<close>

theorem calcular_costo_base_creciente_witness:
  "es_f64 50 \<and> es_f64 100 \<and> es_f64 10 \<and> (0::real) \<le> 50 \<and> (50::real) \<le> 100
   \<and> (0::real) \<le> 10 \<and> (10::real) \<le> 10
   \<and> (\<exists>c c'. calcular_costo_base_f64 50 10 = Some c \<and> calcular_costo_base_f64 100 10 = Some c'
         \<and> c = 40 \<and> c < c')"
proof -
  have h1: "es_f64 50" and h2: "es_f64 100" and h3: "es_f64 10" by (rule es_f64_ejemplos)+
  have h5: "(0::real) \<le> 50" and h6: "(50::real) \<le> 100"
    and h7: "(0::real) \<le> 10" and h8: "(10::real) \<le> 10" by simp_all
  from calcular_costo_base_creciente [OF h1 h2 h3 h3 h5 h6 h7 h8]
  have "(50::real) + 1 \<le> 100 \<and> (100::real) \<le> 2000 \<and> (10::real) \<le> 2000 \<longrightarrow>
            (\<exists>c c'. calcular_costo_base_f64 50 10 = Some c
               \<and> calcular_costo_base_f64 100 10 = Some c' \<and> c < c')"
    by blast
  then obtain c c' where c: "calcular_costo_base_f64 50 10 = Some c"
    "calcular_costo_base_f64 100 10 = Some c'" "c < c'"
    by auto
  have "c = 40" using c(1) costo_f64_50_10 by simp
  with c h1 h2 h3 h5 h6 h7 h8 show ?thesis by blast
qed

subsection \<open>C5: an unknown modality or profile key\<close>

text \<open>
  Claim C5. When the modality key or the profile key is not registered, \<open>predecir_envio\<close>
  raises and returns no prediction, whatever the other arguments are; no default multiplier
  is substituted. When the classifier has answered, the exception is the \<open>KeyError\<close> of
  the first unknown key (the modality is looked up before the profile); this is the
  condition the specification calls \<open>InvalidConfiguration\<close>.
\<close>

theorem predecir_envio_clave_desconocida:
  assumes "modalidad \<notin> set (dict_keys MODALIDADES) \<or> perfil \<notin> set (dict_keys PERFILES)"
  shows "(\<exists>e. predecir_envio modelo datos modalidad perfil = Inl e)
       \<and> (\<forall>q. predecir_envio modelo datos modalidad perfil \<noteq> Inr q)
       \<and> (modelo = Some m \<and> m datos = Inr p \<longrightarrow>
             predecir_envio modelo datos modalidad perfil =
               Inl (KeyError (if modalidad \<notin> set (dict_keys MODALIDADES)
                              then modalidad else perfil)))"
proof -
  have k: "predecir_envio modelo datos modalidad perfil =
             Inl (KeyError (if modalidad \<notin> set (dict_keys MODALIDADES) then modalidad else perfil))"
    if m: "modelo = Some m'" "m' datos = Inr p'" for m' p'
  proof (cases "modalidad \<in> set (dict_keys MODALIDADES)")
    case False
    then show ?thesis using m
      by (simp add: predecir_envio_def dict_get_missing Let_def split: prod.splits)
  next
    case True
    then have "perfil \<notin> set (dict_keys PERFILES)" using assms by simp
    moreover from True obtain md where "dict_get MODALIDADES modalidad = Inr md"
      using dict_get_present by blast
    ultimately show ?thesis using m True
      by (simp add: predecir_envio_def dict_get_missing Let_def split: prod.splits)
  qed
  have e: "\<exists>e. predecir_envio modelo datos modalidad perfil = Inl e"
  proof (cases modelo)
    case None
    then show ?thesis by (simp add: predecir_envio_def)
  next
    case (Some m')
    show ?thesis
    proof (cases "m' datos")
      case (Inl e)
      then show ?thesis using Some by (simp add: predecir_envio_def)
    next
      case (Inr p')
      then show ?thesis using k [OF Some Inr] by simp
    qed
  qed
  from e have "\<forall>q. predecir_envio modelo datos modalidad perfil \<noteq> Inr q" by auto
  with e k show ?thesis by blast
qed

text \<open>The modality \<open>overnight\<close> is not registered: the call raises \<open>KeyError\<close>.\<close>

theorem predecir_envio_clave_desconocida_witness:
  "''overnight'' \<notin> set (dict_keys MODALIDADES)
   \<and> predecir_envio (Some (clasificador_fijo 0.3)) (datos_ejemplo 50) ''overnight'' ''urgente''
       = Inl (KeyError ''overnight'')"
proof -
  have h: "''overnight'' \<notin> set (dict_keys MODALIDADES)"
    by (simp add: dict_keys_def MODALIDADES_def economico_def estandar_def)
  have c: "clasificador_fijo 0.3 (datos_ejemplo 50) = Inr 0.3"
    by (simp add: clasificador_fijo_def)
  from h have "''overnight'' \<notin> set (dict_keys MODALIDADES) \<or> ''urgente'' \<notin> set (dict_keys PERFILES)"
    by simp
  from predecir_envio_clave_desconocida [OF this, of "Some (clasificador_fijo 0.3)"
      "datos_ejemplo 50" "clasificador_fijo 0.3" "0.3"] c h
  show ?thesis by simp
qed

subsection \<open>C6: no prediction without a working classifier\<close>

text \<open>
  Claim C6. While the classifier is unavailable no prediction is produced and the failure
  is signalled. When loading failed, \<open>load_model\<close> has reported it with \<open>st.error\<close> and
  returned \<open>None\<close>; the guard of tab 1 then skips the computation, and a call of
  \<open>predecir_envio\<close> with \<open>None\<close> raises \<open>AttributeError\<close>. When the classifier raises
  instead of answering, \<open>predecir_envio\<close> raises the same exception, and tab 1 ends with
  it before any row is shown. These exceptions and the reported load error are the
  condition the specification calls \<open>UnavailableModel\<close>.
\<close>

theorem sin_modelo_no_hay_prediccion:
  assumes "m datos = Inl e"
  shows "predecir_envio None datos modalidad perfil = Inl AttributeError
       \<and> predecir_envio (Some m) datos modalidad perfil = Inl e
       \<and> load_model (Inl e') = (None, [st_error])
       \<and> tab1_calcular (fst (load_model (Inl e'))) pulsado datos perfil = None
       \<and> tab1_calcular (Some m) True datos perfil = Some (Inl e)"
  using assms
  by (simp add: predecir_envio_def load_model_def tab1_calcular_def dict_keys_def MODALIDADES_def)

theorem sin_modelo_no_hay_prediccion_witness:
  "clasificador_roto (datos_ejemplo 50) = Inl PredictError
   \<and> predecir_envio (Some clasificador_roto) (datos_ejemplo 50) estandar ''urgente''
       = Inl PredictError
   \<and> tab1_calcular (Some clasificador_roto) True (datos_ejemplo 50) ''urgente''
       = Some (Inl PredictError)"
proof -
  have h: "clasificador_roto (datos_ejemplo 50) = Inl PredictError"
    by (simp add: clasificador_roto_def)
  from sin_modelo_no_hay_prediccion [of clasificador_roto "datos_ejemplo 50" PredictError, OF h] h
  show ?thesis by simp
qed

subsection \<open>C7: the four alerts\<close>

text \<open>
  Claim C7. Tab 2 emits four elements, one per check and each decided by its own inputs
  only: for the traffic a warning exactly when it is \<open>Heavy\<close>; for the weather a warning
  exactly when the temperature is above 30 or the humidity above 80; for the inventory an
  error (the specification's critical) exactly when the ratio is below 0.5; for the waiting
  time an error exactly when it is above 60; and a success (the specification's ok)
  otherwise.
\<close>

theorem tab2_alertas_independientes:
  "tab2_alertas tr t h i w =
     [if tr = ''Heavy'' then st_warning else st_success,
      if t > 30 \<or> h > 80 then st_warning else st_success,
      if i < 0.5 then st_error else st_success,
      if w > 60 then st_error else st_success]
   \<and> tab2_alertas tr t h i w ! 0 = tab2_alertas tr t' h' i' w' ! 0
   \<and> tab2_alertas tr t h i w ! 1 = tab2_alertas tr' t h i' w' ! 1
   \<and> tab2_alertas tr t h i w ! 2 = tab2_alertas tr' t' h' i w' ! 2
   \<and> tab2_alertas tr t h i w ! 3 = tab2_alertas tr' t' h' i' w ! 3
   \<and> ((tab2_alertas tr t h i w ! 0 = st_warning) = (tr = ''Heavy''))
   \<and> ((tab2_alertas tr t h i w ! 0 = st_success) = (tr \<noteq> ''Heavy''))
   \<and> ((tab2_alertas tr t h i w ! 1 = st_warning) = (t > 30 \<or> h > 80))
   \<and> ((tab2_alertas tr t h i w ! 1 = st_success) = (\<not> (t > 30 \<or> h > 80)))
   \<and> ((tab2_alertas tr t h i w ! 2 = st_error) = (i < 0.5))
   \<and> ((tab2_alertas tr t h i w ! 2 = st_success) = (\<not> i < 0.5))
   \<and> ((tab2_alertas tr t h i w ! 3 = st_error) = (w > 60))
   \<and> ((tab2_alertas tr t h i w ! 3 = st_success) = (\<not> w > 60))"
  by (simp add: tab2_alertas_def)

text \<open>The specification's two alert scenarios.\<close>

theorem tab2_alertas_independientes_witness:
  "tab2_alertas ''Heavy'' 25 50 1.0 30 = [st_warning, st_success, st_success, st_success]
   \<and> tab2_alertas ''Clear'' 25 50 0.3 90 = [st_success, st_success, st_error, st_error]"
  using tab2_alertas_independientes [of "''Heavy''" 25 50 "1.0" 30]
    tab2_alertas_independientes [of "''Clear''" 25 50 "0.3" 90]
  by simp

subsection \<open>C8: the two encodings of the traffic\<close>

text \<open>
  Claim C8. For each of the three traffic categories the feature dictionary built in tab 1
  holds the score (Clear 1, Detour 2, Heavy 3) and the number (Clear 0, Detour 1, Heavy 2)
  of the same category: \<open>Traffic_Num\<close> is \<open>Trafico_Score - 1\<close> in every dictionary
  built.
\<close>

theorem trafico_codificaciones_coherentes:
  assumes "trafico \<in> set trafico_opciones"
  shows "\<exists>datos. construir_datos_envio distancia_km waiting trafico temp hum inv_ratio = Inr datos
           \<and> Traffic_Num datos = Trafico_Score datos - 1
           \<and> (Trafico_Score datos, Traffic_Num datos) =
               (if trafico = ''Clear'' then (1, 0)
                else if trafico = ''Detour'' then (2, 1) else (3, 2))"
  using assms
  by (auto simp: trafico_opciones_def construir_datos_envio_def dict_get_def
      trafico_score_dict_def trafico_num_dict_def)

theorem trafico_codificaciones_coherentes_witness:
  "''Heavy'' \<in> set trafico_opciones
   \<and> (\<exists>datos. construir_datos_envio 50 10 ''Heavy'' 25 60 1.0 = Inr datos
         \<and> Trafico_Score datos = 3 \<and> Traffic_Num datos = 2)"
proof -
  have h: "''Heavy'' \<in> set trafico_opciones"
    by (simp add: trafico_opciones_def)
  from trafico_codificaciones_coherentes [OF h, of 50 10 25 60 "1.0"] h
  show ?thesis by auto
qed

subsection \<open>C9: a prediction has a positive time and a positive cost\<close>

text \<open>
  Claim C9. For every distance \<open>d \<ge> 0\<close>, every delay probability in [0, 1] answered by
  the classifier and every registered modality and profile, \<open>predecir_envio\<close> returns a
  prediction whose probability is in [0, 1] and whose time and cost are positive: the base
  time is at least 2.0, the base cost at least 5.0 plus the default weight's contribution,
  and every multiplier is positive.
\<close>

theorem prediccion_positiva:
  assumes "0 \<le> Distancia_KM datos" and "0 \<le> p" and "p \<le> 1"
    and "m datos = Inr p"
    and "modalidad \<in> set (dict_keys MODALIDADES)"
    and "perfil \<in> set (dict_keys PERFILES)"
  shows "\<exists>q. predecir_envio (Some m) datos modalidad perfil = Inr q
           \<and> 0 \<le> prob_retraso q \<and> prob_retraso q \<le> 1
           \<and> 0 < tiempo_horas q \<and> 0 < costo_usd q
           \<and> 2.0 \<le> calcular_tiempo_base (Distancia_KM datos)
           \<and> 5.0 + 1.0 * peso_kg_default
               \<le> calcular_costo_base (Distancia_KM datos) peso_kg_default"
proof -
  let ?tb = "calcular_tiempo_base (Distancia_KM datos)"
  let ?cb = "calcular_costo_base (Distancia_KM datos) peso_kg_default"
  from assms(5) obtain md where md: "dict_get MODALIDADES modalidad = Inr md"
    using dict_get_present by blast
  from assms(6) obtain pf where pf: "dict_get PERFILES perfil = Inr pf"
    using dict_get_present by blast
  have tb: "2.0 \<le> ?tb"
    using assms(1) by (simp add: calcular_tiempo_base_def)
  have cb: "5.0 + 1.0 * peso_kg_default \<le> ?cb"
    using assms(1) by (simp add: calcular_costo_base_def)
  have "0 < ?tb" using tb by simp
  moreover have "0 < ?cb" using cb by (simp add: peso_kg_default_def)
  ultimately have a: "0 < fst (ajuste_riesgo p ?tb ?cb)" "0 < fst (snd (ajuste_riesgo p ?tb ?cb))"
    using ajuste_riesgo_positivo by blast+
  have t: "0 < fst (ajuste_riesgo p ?tb ?cb) * tiempo md * tiempo pf"
    using a(1) dict_get_MODALIDADES_pos [OF md] dict_get_PERFILES_pos [OF pf] by simp
  have c: "0 < fst (snd (ajuste_riesgo p ?tb ?cb)) * costo md * costo pf"
    using a(2) dict_get_MODALIDADES_pos [OF md] dict_get_PERFILES_pos [OF pf] by simp
  show ?thesis
    unfolding predecir_envio_ok [of m datos p, OF assms(4) md pf]
    using t c tb cb assms(2,3) by simp
qed

text \<open>
  The specification's second end-to-end scenario (distance 0, probability 0.3, standard
  modality, economic profile) meets the hypotheses.
\<close>

theorem prediccion_positiva_witness:
  "(0::real) \<le> Distancia_KM (datos_ejemplo 0) \<and> (0::real) \<le> 0.3 \<and> (0.3::real) \<le> 1
   \<and> clasificador_fijo 0.3 (datos_ejemplo 0) = Inr 0.3
   \<and> estandar \<in> set (dict_keys MODALIDADES) \<and> economico \<in> set (dict_keys PERFILES)
   \<and> (\<exists>q. predecir_envio (Some (clasificador_fijo 0.3)) (datos_ejemplo 0) estandar economico
            = Inr q
         \<and> 0 < tiempo_horas q \<and> 0 < costo_usd q)"
proof -
  have h1: "(0::real) \<le> Distancia_KM (datos_ejemplo 0)" by (simp add: datos_ejemplo_def)
  have h2: "(0::real) \<le> 0.3" and h3: "(0.3::real) \<le> 1" by simp_all
  have h4: "clasificador_fijo 0.3 (datos_ejemplo 0) = Inr 0.3" by (simp add: clasificador_fijo_def)
  have h5: "estandar \<in> set (dict_keys MODALIDADES)" by (simp add: dict_keys_def MODALIDADES_def)
  have h6: "economico \<in> set (dict_keys PERFILES)" by (simp add: dict_keys_def PERFILES_def)
  from prediccion_positiva [of "datos_ejemplo 0" "0.3" "clasificador_fijo 0.3",
      OF h1 h2 h3 h4 h5 h6] h1 h2 h3 h4 h5 h6
  show ?thesis by blast
qed

subsection \<open>C10: monotonicity in the delay probability\<close>

text \<open>
  The time and the cost of a prediction do not decrease with the delay probability as long
  as the base time and the base cost are not negative, which holds from \<open>-30\<close> km on.
\<close>

lemma prediccion_monotona_base_no_negativa:
  assumes "- 30 \<le> Distancia_KM datos" and "p1 \<le> p2"
    and "m1 datos = Inr p1" and "m2 datos = Inr p2"
    and "predecir_envio (Some m1) datos modalidad perfil = Inr q1"
    and "predecir_envio (Some m2) datos modalidad perfil = Inr q2"
  shows "tiempo_horas q1 \<le> tiempo_horas q2 \<and> costo_usd q1 \<le> costo_usd q2"
proof -
  let ?tb = "calcular_tiempo_base (Distancia_KM datos)"
  let ?cb = "calcular_costo_base (Distancia_KM datos) peso_kg_default"
  from predecir_envio_Inr_D [OF assms(5)]
  obtain md pf where md: "dict_get MODALIDADES modalidad = Inr md"
    and pf: "dict_get PERFILES perfil = Inr pf"
    by auto
  have tb: "0 \<le> ?tb" using assms(1) by (simp add: calcular_tiempo_base_def)
  have cb: "0 \<le> ?cb" using assms(1) by (simp add: calcular_costo_base_def peso_kg_default_def)
  have q1: "tiempo_horas q1 = fst (ajuste_riesgo p1 ?tb ?cb) * tiempo md * tiempo pf"
           "costo_usd q1 = fst (snd (ajuste_riesgo p1 ?tb ?cb)) * costo md * costo pf"
    using assms(5) unfolding predecir_envio_ok [of m1 datos p1, OF assms(3) md pf] by auto
  have q2: "tiempo_horas q2 = fst (ajuste_riesgo p2 ?tb ?cb) * tiempo md * tiempo pf"
           "costo_usd q2 = fst (snd (ajuste_riesgo p2 ?tb ?cb)) * costo md * costo pf"
    using assms(6) unfolding predecir_envio_ok [of m2 datos p2, OF assms(4) md pf] by auto
  have mt: "0 \<le> tiempo md" "0 \<le> costo md" "0 \<le> tiempo pf" "0 \<le> costo pf"
    using dict_get_MODALIDADES_pos [OF md] dict_get_PERFILES_pos [OF pf] by simp_all
  from ajuste_riesgo_monotono [OF tb cb assms(2)]
  show ?thesis unfolding q1 q2 using mt by (simp add: mult_right_mono)
qed

text \<open>The feature dictionaries built in tab 1 carry the distance of the widget.\<close>

lemma construir_datos_envio_distancia:
  assumes "construir_datos_envio distancia_km waiting trafico temp hum inv_ratio = Inr datos"
  shows "Distancia_KM datos = real_of_int distancia_km"
  using assms by (auto simp: construir_datos_envio_def split: sum.splits)

text \<open>
  Claim C10. For every fixed distance (a distance is not negative: the widget gives 1 to
  2000 km), modality and profile, the time and the cost of the prediction are monotone
  non-decreasing in the delay probability: for all probabilities \<open>p1 \<le> p2\<close> in [0, 1],
  the prediction exists at both, and the hours and the cost at \<open>p1\<close> are at most those at
  \<open>p2\<close>.
\<close>

theorem prediccion_monotona_en_probabilidad:
  assumes "0 \<le> Distancia_KM datos"
    and "0 \<le> p1" and "p1 \<le> p2" and "p2 \<le> 1"
    and "m1 datos = Inr p1" and "m2 datos = Inr p2"
    and "modalidad \<in> set (dict_keys MODALIDADES)"
    and "perfil \<in> set (dict_keys PERFILES)"
  shows "\<exists>q1 q2. predecir_envio (Some m1) datos modalidad perfil = Inr q1
           \<and> predecir_envio (Some m2) datos modalidad perfil = Inr q2
           \<and> tiempo_horas q1 \<le> tiempo_horas q2 \<and> costo_usd q1 \<le> costo_usd q2"
proof -
  from assms(7) obtain md where md: "dict_get MODALIDADES modalidad = Inr md"
    using dict_get_present by blast
  from assms(8) obtain pf where pf: "dict_get PERFILES perfil = Inr pf"
    using dict_get_present by blast
  obtain q1 where q1: "predecir_envio (Some m1) datos modalidad perfil = Inr q1"
    using predecir_envio_ok [of m1 datos p1, OF assms(5) md pf] by blast
  obtain q2 where q2: "predecir_envio (Some m2) datos modalidad perfil = Inr q2"
    using predecir_envio_ok [of m2 datos p2, OF assms(6) md pf] by blast
  have "- 30 \<le> Distancia_KM datos" using assms(1) by linarith
  from prediccion_monotona_base_no_negativa [OF this assms(3) assms(5,6) q1 q2] q1 q2
  show ?thesis by blast
qed

text \<open>
  At 50 km, express and urgent: 1.89 hours and 72 at probability 0.3, 2.835 hours and 93.6
  at probability 0.75.
\<close>

theorem prediccion_monotona_en_probabilidad_witness:
  "(0::real) \<le> Distancia_KM (datos_ejemplo 50)
   \<and> (0::real) \<le> 0.3 \<and> (0.3::real) \<le> 0.75 \<and> (0.75::real) \<le> 1
   \<and> clasificador_fijo 0.3 (datos_ejemplo 50) = Inr 0.3
   \<and> clasificador_fijo 0.75 (datos_ejemplo 50) = Inr 0.75
   \<and> ''express'' \<in> set (dict_keys MODALIDADES) \<and> ''urgente'' \<in> set (dict_keys PERFILES)
   \<and> (\<exists>q1 q2.
         predecir_envio (Some (clasificador_fijo 0.3)) (datos_ejemplo 50) ''express'' ''urgente''
           = Inr q1
       \<and> predecir_envio (Some (clasificador_fijo 0.75)) (datos_ejemplo 50) ''express'' ''urgente''
           = Inr q2
       \<and> tiempo_horas q1 = 1.89 \<and> tiempo_horas q2 = 2.835
       \<and> costo_usd q1 = 72 \<and> costo_usd q2 = 93.6
       \<and> tiempo_horas q1 \<le> tiempo_horas q2 \<and> costo_usd q1 \<le> costo_usd q2)"
proof -
  have h1: "(0::real) \<le> Distancia_KM (datos_ejemplo 50)" by (simp add: datos_ejemplo_def)
  have h2: "(0::real) \<le> 0.3" and h3: "(0.3::real) \<le> 0.75" and h4: "(0.75::real) \<le> 1"
    by simp_all
  have h5: "clasificador_fijo 0.3 (datos_ejemplo 50) = Inr 0.3"
    and h6: "clasificador_fijo 0.75 (datos_ejemplo 50) = Inr 0.75"
    by (simp_all add: clasificador_fijo_def)
  have h7: "''express'' \<in> set (dict_keys MODALIDADES)" by (simp add: dict_keys_def MODALIDADES_def)
  have h8: "''urgente'' \<in> set (dict_keys PERFILES)" by (simp add: dict_keys_def PERFILES_def)
  have e1: "predecir_envio (Some (clasificador_fijo 0.3)) (datos_ejemplo 50) ''express'' ''urgente''
       = Inr \<lparr>prob_retraso = 0.3, riesgo = ''bajo'', tiempo_horas = 1.89, costo_usd = 72\<rparr>"
    by (simp add: predecir_envio_eval dict_get_tabla spec_riskTimeMultiplier_def
      spec_riskCostMultiplier_def)
  have e2: "predecir_envio (Some (clasificador_fijo 0.75)) (datos_ejemplo 50) ''express'' ''urgente''
       = Inr \<lparr>prob_retraso = 0.75, riesgo = ''alto'', tiempo_horas = 2.835, costo_usd = 93.6\<rparr>"
    by (simp add: predecir_envio_eval dict_get_tabla spec_riskTimeMultiplier_def
      spec_riskCostMultiplier_def)
  from prediccion_monotona_en_probabilidad [of "datos_ejemplo 50" "0.3" "0.75"
      "clasificador_fijo 0.3" "clasificador_fijo 0.75", OF h1 h2 h3 h4 h5 h6 h7 h8]
  obtain q1 q2 where
    q: "predecir_envio (Some (clasificador_fijo 0.3)) (datos_ejemplo 50) ''express'' ''urgente''
           = Inr q1"
       "predecir_envio (Some (clasificador_fijo 0.75)) (datos_ejemplo 50) ''express'' ''urgente''
           = Inr q2"
       "tiempo_horas q1 \<le> tiempo_horas q2" "costo_usd q1 \<le> costo_usd q2"
    by blast
  have "tiempo_horas q1 = 1.89" "costo_usd q1 = 72" using q(1) e1 by auto
  moreover have "tiempo_horas q2 = 2.835" "costo_usd q2 = 93.6" using q(2) e2 by auto
  ultimately show ?thesis using h1 h2 h3 h4 h5 h6 h7 h8 q by blast
qed

end
